theory Spec2Isabelle
  imports Main "HOL-Library.Word"
begin

section \<open>The clustering launcher (src/clustering_launcher.cpp)\<close>

text \<open>
  The launcher is one C++ function, \<^verbatim>\<open>main\<close>. It is embedded as a function from an
  environment (the command line, the answers of the operating system, the bytes of the
  schedule file) to the list of library and system calls it makes, in order, and the way
  the process ends. The blocks of \<^verbatim>\<open>main\<close> become definitions named after what the
  source's comments call them; each gives the source lines it embeds. A run is that of one
  process, as far as no other process ends it.

  \<^verbatim>\<open>unsigned\<close> is taken to be 32 bits wide, as on every ABI that offers the POSIX
  calls the launcher uses; its arithmetic is that of \<^typ>\<open>32 word\<close>.
\<close>

subsection \<open>Exit codes, calls and outcomes\<close>

text \<open>\<^verbatim>\<open>enum rt_gomp_clustering_launcher_error_codes\<close>, lines 17-26.\<close>

datatype rt_gomp_clustering_launcher_error_codes =
    RT_GOMP_CLUSTERING_LAUNCHER_SUCCESS
  | RT_GOMP_CLUSTERING_LAUNCHER_FILE_OPEN_ERROR
  | RT_GOMP_CLUSTERING_LAUNCHER_FILE_PARSE_ERROR
  | RT_GOMP_CLUSTERING_LAUNCHER_UNSCHEDULABLE_ERROR
  | RT_GOMP_CLUSTERING_LAUNCHER_FORK_EXECV_ERROR
  | RT_GOMP_CLUSTERING_LAUNCHER_BARRIER_INITIALIZATION_ERROR
  | RT_GOMP_CLUSTERING_LAUNCHER_ARGUMENT_ERROR

text \<open>What \<^verbatim>\<open>fork\<close>, the \<^verbatim>\<open>exec\<close> family and \<^verbatim>\<open>wait\<close> can answer.\<close>

datatype fork_result =
    Fork_child            \<comment> \<open>\<^verbatim>\<open>pid == 0\<close>: this process is the new child\<close>
  | Fork_error            \<comment> \<open>\<^verbatim>\<open>pid == -1\<close>\<close>
  | Fork_parent nat       \<comment> \<open>the pid of the child that was created\<close>

datatype exec_result =
    Exec_replaced         \<comment> \<open>the process image was replaced; the call never returns\<close>
  | Exec_returned         \<comment> \<open>the call returned, which it does only on failure\<close>

datatype errno = ECHILD | EINTR

datatype wait_result =
    Wait_reaped nat int   \<comment> \<open>pid and exit status of a child that ended\<close>
  | Wait_failed errno     \<comment> \<open>\<^verbatim>\<open>wait\<close> returned -1\<close>

datatype signal = SIGTERM

text \<open>
  What \<^verbatim>\<open>SIGTERM\<close> does to a process it is delivered to. The launcher installs no
  handler, and \<^verbatim>\<open>exec\<close> has reset the handlers of the process that started it: in the
  launcher the signal either has its default action and is not blocked, and ends the
  process, or it is ignored or blocked, as inherited, and has no effect on the run.
\<close>

datatype sigterm_action =
    Sigterm_terminates
  | Sigterm_no_effect

text \<open>
  What the program of a task has done by the time a signal is sent to the launcher's process
  group. A task is created by \<^verbatim>\<open>fork\<close> and started by \<^verbatim>\<open>execv\<close>: it begins in the
  launcher's process group, and \<^verbatim>\<open>SIGTERM\<close> does to it what it does to the launcher
  (the default action, an ignored signal and the mask of blocked signals all pass through
  \<^verbatim>\<open>fork\<close> and \<^verbatim>\<open>execv\<close>), until the program changes that.
\<close>

datatype task_behaviour =
    Keeps_inherited                 \<comment> \<open>same process group, \<^verbatim>\<open>SIGTERM\<close> as inherited\<close>
  | Sets_sigterm sigterm_action     \<comment> \<open>same process group, its own way with \<^verbatim>\<open>SIGTERM\<close>\<close>
  | Leaves_process_group            \<comment> \<open>\<^verbatim>\<open>setpgid\<close> or \<^verbatim>\<open>setsid\<close>\<close>
  | Has_ended                       \<comment> \<open>the process is gone\<close>

text \<open>
  The calls the launcher makes that reach beyond its own memory. Reading the opened
  stream is not among them: the stream is a value (see \<open>getline\<close> below).
  \<open>Fprintf_stderr\<close> carries the format string and the strings given for its
  \<^verbatim>\<open>%s\<close>; \<open>Execv\<close> and \<open>Execvp\<close> carry the file and the argument vector (without
  the closing \<^verbatim>\<open>NULL\<close>). All of these are C strings, as the callee reads them: where
  the source passes the \<^verbatim>\<open>c_str()\<close> of a \<^verbatim>\<open>std::string\<close>, the call carries its
  \<open>c_str\<close> (below), which ends before the first NUL character.
  \<open>Fork\<close> carries the answer of the call; \<open>Kill 0 SIGTERM\<close> is
  \<^verbatim>\<open>kill(0, SIGTERM)\<close>, which addresses every process of the caller's process group.
\<close>

datatype event =
    Fprintf_stderr string "string list"
  | Perror string
  | Stat string
  | Fork fork_result
  | Execvp string "string list"
  | Execv string "string list"
  | Wait
  | Ifstream_open string
  | Init_single_use_barrier string "32 word"
  | Kill int signal

datatype outcome =
    Returned rt_gomp_clustering_launcher_error_codes
  | Image_replaced        \<comment> \<open>a successful \<^verbatim>\<open>exec\<close>: the launcher's code is gone\<close>
  | Blocked_in_wait       \<comment> \<open>\<^verbatim>\<open>wait\<close> never reports \<^verbatim>\<open>ECHILD\<close>\<close>
  | Terminated_by signal  \<comment> \<open>ended by a signal: \<^verbatim>\<open>main\<close> does not return\<close>

text \<open>
  The environment of one run of \<^verbatim>\<open>main\<close> in one process. \<open>stat_taskset\<close> and
  \<open>stat_schedule\<close> are \<open>None\<close> when \<^verbatim>\<open>stat\<close> returns -1 and the \<^verbatim>\<open>st_mtime\<close>
  otherwise; \<open>schedule_file\<close> is the content of the schedule file when it is opened
  (\<open>None\<close>: it cannot be opened); \<open>barrier_ret_val\<close> is what
  \<^verbatim>\<open>init_single_use_barrier\<close> (declared in single_use_barrier.h) returns;
  \<open>fork_task t\<close> and \<open>execv_task t\<close> are the answers of the two calls in iteration
  \<open>t\<close> of the launch loop; \<open>sigterm\<close> is what \<^verbatim>\<open>SIGTERM\<close> does to the process
  that runs \<^verbatim>\<open>main\<close>; \<open>task_behaviour pid\<close> is what the task with process id
  \<open>pid\<close> has done. The entries of \<open>argv\<close> are C strings: they hold no NUL character.
\<close>

record environment =
  argv :: "string list"
  stat_taskset :: "int option"
  stat_schedule :: "int option"
  fork_scheduler :: fork_result
  execvp_scheduler :: exec_result
  wait_scheduler :: "wait_result list"
  schedule_file :: "string option"
  barrier_ret_val :: int
  fork_task :: "32 word \<Rightarrow> fork_result"
  execv_task :: "32 word \<Rightarrow> exec_result"
  wait_tasks :: "wait_result list"
  sigterm :: sigterm_action
  task_behaviour :: "nat \<Rightarrow> task_behaviour"

subsection \<open>The C++ library operations the launcher calls\<close>

text \<open>
  A stream is modelled by the characters it has not read yet. \<^verbatim>\<open>std::getline\<close> fails
  at the end of the stream; otherwise it delivers the characters before the next newline
  and consumes that newline.
\<close>

definition getline :: "string \<Rightarrow> (string \<times> string) option" where
  "getline ifs =
     (if ifs = [] then None
      else Some (takeWhile (\<lambda>c. c \<noteq> CHR 0x0A) ifs,
                 drop 1 (dropWhile (\<lambda>c. c \<noteq> CHR 0x0A) ifs)))"

text \<open>
  \<^verbatim>\<open>std::string::c_str()\<close> as a C string: \<^verbatim>\<open>fprintf\<close> with \<^verbatim>\<open>%s\<close> and
  \<^verbatim>\<open>execv\<close> read the characters before the first NUL.
\<close>

definition c_str :: "string \<Rightarrow> string" where
  "c_str s = takeWhile (\<lambda>c. c \<noteq> CHR 0x00) s"

text \<open>\<^verbatim>\<open>isspace\<close> in the C locale.\<close>

definition isspace :: "char \<Rightarrow> bool" where
  "isspace c = (c = CHR '' '' \<or> c = CHR 0x09 \<or> c = CHR 0x0A \<or> c = CHR 0x0B
                \<or> c = CHR 0x0C \<or> c = CHR 0x0D)"

text \<open>
  \<^verbatim>\<open>stream >> std::string\<close>: skips white space, then reads up to the next white
  space; fails when nothing but white space is left.
\<close>

definition extract_string :: "string \<Rightarrow> (string \<times> string) option" where
  "extract_string s =
     (let s' = dropWhile isspace s
      in if s' = [] then None
         else Some (takeWhile (\<lambda>c. \<not> isspace c) s', dropWhile (\<lambda>c. \<not> isspace c) s'))"

definition isdigit :: "char \<Rightarrow> bool" where
  "isdigit c = (48 \<le> (of_char c :: int) \<and> (of_char c :: int) \<le> 57)"

definition digits_value :: "string \<Rightarrow> int" where
  "digits_value ds = foldl (\<lambda>acc c. 10 * acc + ((of_char c :: int) - 48)) 0 ds"

text \<open>
  \<^verbatim>\<open>stream >> unsigned\<close> (base ten): skips white space, takes an optional sign and
  the decimal digits that follow; fails when there is no digit or the digits exceed
  \<^verbatim>\<open>UINT_MAX\<close>; a leading minus negates the value modulo \<open>2 ^ 32\<close>, as the GNU and
  the LLVM library do. What follows the digits stays unread. The launcher only asks
  whether the extraction succeeds and whether the value is 0, 1 or something else.
\<close>

definition extract_unsigned :: "string \<Rightarrow> 32 word option" where
  "extract_unsigned s =
     (let s1 = dropWhile isspace s;
          negative = (s1 \<noteq> [] \<and> hd s1 = CHR ''-'');
          s2 = (if s1 \<noteq> [] \<and> (hd s1 = CHR ''-'' \<or> hd s1 = CHR ''+'') then tl s1 else s1);
          digits = takeWhile isdigit s2
      in if digits = [] then None
         else if 4294967295 < digits_value digits then None
         else Some (if negative then - word_of_int (digits_value digits)
                    else word_of_int (digits_value digits)))"

lemma getline_shorter: "getline ifs = Some (line, ifs') \<Longrightarrow> length ifs' < length ifs"
proof -
  assume g: "getline ifs = Some (line, ifs')"
  then have ne: "ifs \<noteq> []" and eq: "ifs' = drop 1 (dropWhile (\<lambda>c. c \<noteq> CHR 0x0A) ifs)"
    by (auto simp: getline_def split: if_splits)
  have "length (dropWhile (\<lambda>c. c \<noteq> CHR 0x0A) ifs) \<le> length ifs"
    by (rule length_dropWhile_le)
  with ne eq show ?thesis
    by (cases ifs) (auto simp: le_Suc_eq)
qed

lemma extract_string_shorter:
  "extract_string s = Some (tok, s') \<Longrightarrow> length s' < length s"
proof -
  assume e: "extract_string s = Some (tok, s')"
  define r where "r = dropWhile isspace s"
  from e have ne: "r \<noteq> []" and eq: "s' = dropWhile (\<lambda>c. \<not> isspace c) r"
    by (auto simp: extract_string_def Let_def r_def split: if_splits)
  from ne have "\<not> isspace (hd r)"
    unfolding r_def by (metis hd_dropWhile)
  with ne have "length (dropWhile (\<lambda>c. \<not> isspace c) r) < length r"
    by (cases r) (auto simp: less_Suc_eq_le length_dropWhile_le)
  moreover have "length r \<le> length s"
    unfolding r_def by (rule length_dropWhile_le)
  ultimately show ?thesis using eq by simp
qed

subsection \<open>Counting the lines (lines 108-112)\<close>

text \<open>\<^verbatim>\<open>while (getline(ifs, line)) { num_lines += 1; }\<close>\<close>

function count_lines :: "string \<Rightarrow> 32 word \<Rightarrow> 32 word" where
  "count_lines ifs num_lines =
     (case getline ifs of
        None \<Rightarrow> num_lines
      | Some (line, ifs') \<Rightarrow> count_lines ifs' (num_lines + 1))"
  by pat_completeness auto
termination
  by (relation "measure (\<lambda>(ifs, num_lines). length ifs)") (auto dest: getline_shorter)

text \<open>The lines \<^verbatim>\<open>getline\<close> delivers from a stream, in order.\<close>

function lines_of :: "string \<Rightarrow> string list" where
  "lines_of ifs =
     (case getline ifs of
        None \<Rightarrow> []
      | Some (line, ifs') \<Rightarrow> line # lines_of ifs')"
  by pat_completeness auto
termination
  by (relation "measure length") (auto dest: getline_shorter)

declare count_lines.simps [simp del] lines_of.simps [simp del]

subsection \<open>Reading tokens\<close>

text \<open>
  \<^verbatim>\<open>while (task_command_stream >> task_arg) task_manager_argvector.push_back(task_arg);\<close>
  (lines 275-279).
\<close>

function read_task_args :: "string \<Rightarrow> string list \<Rightarrow> string list" where
  "read_task_args task_command_stream task_manager_argvector =
     (case extract_string task_command_stream of
        None \<Rightarrow> task_manager_argvector
      | Some (task_arg, rest) \<Rightarrow> read_task_args rest (task_manager_argvector @ [task_arg]))"
  by pat_completeness auto
termination
  by (relation "measure (\<lambda>(s, v). length s)") (auto dest: extract_string_shorter)

declare read_task_args.simps [simp del]

text \<open>The white-space separated tokens of a line: what the loop above reads.\<close>

definition tokens :: "string \<Rightarrow> string list" where
  "tokens s = read_task_args s []"

text \<open>
  \<^verbatim>\<open>for (i = 0; i < n; ++i) if (stream >> param) argvector.push_back(param); else error\<close>
  (lines 212-224 and 247-259): \<open>None\<close> is the \<^verbatim>\<open>else\<close> branch.
\<close>

fun read_params :: "nat \<Rightarrow> string \<Rightarrow> string list \<Rightarrow> (string list \<times> string) option" where
  "read_params 0 stream argvector = Some (argvector, stream)"
| "read_params (Suc n) stream argvector =
     (case extract_string stream of
        None \<Rightarrow> None
      | Some (param, rest) \<Rightarrow> read_params n rest (argvector @ [param]))"

text \<open>
  \<^verbatim>\<open>for (i = 0; i < n; ++i) if (!(stream >> timing_param)) error\<close> (lines 236-244).
\<close>

fun skip_params :: "nat \<Rightarrow> string \<Rightarrow> string option" where
  "skip_params 0 stream = Some stream"
| "skip_params (Suc n) stream =
     (case extract_string stream of
        None \<Rightarrow> None
      | Some (param, rest) \<Rightarrow> skip_params n rest)"

subsection \<open>The constants of \<^verbatim>\<open>main\<close> (lines 30-40)\<close>

definition num_timing_params :: nat where
  "num_timing_params = 11"

definition num_skipped_timing_params :: nat where
  "num_skipped_timing_params = 4"

definition num_partition_params :: nat where
  "num_partition_params = 3"

definition barrier_name :: string where
  "barrier_name = ''RT_GOMP_CLUSTERING_BARRIER''"

subsection \<open>Building the argument vector of one task (lines 183-279)\<close>

text \<open>
  The result is \<open>Inl\<close> of the diagnostic of the branch that gives up (each such branch
  then signals the process group before its \<^verbatim>\<open>return\<close>, see \<open>launch_task\<close>), or
  \<open>Inr\<close> of the program name and \<^verbatim>\<open>task_manager_argvector\<close>, the vector of
  \<^verbatim>\<open>std::string\<close> of line 195.
\<close>

definition task_argvector :: "string \<Rightarrow> string \<Rightarrow> string \<Rightarrow> event + string \<times> string list" where
  "task_argvector task_command_line task_timing_line task_partition_line =
     (case extract_string task_command_line of
        None \<Rightarrow> Inl (Fprintf_stderr ''ERROR: Program name not provided for task'' [])
      | Some (program_name, task_command_stream) \<Rightarrow>
     (case read_params num_partition_params task_partition_line [program_name] of
        None \<Rightarrow> Inl (Fprintf_stderr
          ''ERROR: Too few partition parameters were provided for task %s'' [c_str program_name])
      | Some (argvector1, task_partition_stream) \<Rightarrow>
     (if extract_string task_partition_stream \<noteq> None
      then Inl (Fprintf_stderr
          ''ERROR: Too many partition parameters were provided for task %s'' [c_str program_name])
      else
     (case skip_params num_skipped_timing_params task_timing_line of
        None \<Rightarrow> Inl (Fprintf_stderr
          ''ERROR: Too few timing parameters were provided for task %s'' [c_str program_name])
      | Some task_timing_stream \<Rightarrow>
     (case read_params (num_timing_params - num_skipped_timing_params) task_timing_stream
             argvector1 of
        None \<Rightarrow> Inl (Fprintf_stderr
          ''ERROR: Too few timing parameters were provided for task %s'' [c_str program_name])
      | Some (argvector2, task_timing_stream') \<Rightarrow>
     (if extract_string task_timing_stream' \<noteq> None
      then Inl (Fprintf_stderr
          ''ERROR: Too many timing parameters were provided for task %s'' [c_str program_name])
      else Inr (program_name,
                read_task_args task_command_stream
                  (argvector2 @ [barrier_name] @ [program_name]))))))))"

subsection \<open>One iteration of the launch loop (lines 183-311)\<close>

text \<open>
  \<^verbatim>\<open>kill(0, SIGTERM); return code;\<close> as every failing branch of the loop ends. The
  caller is a member of its own process group, so the signal is generated for the caller
  too and, unless blocked, delivered before \<^verbatim>\<open>kill\<close> returns: where
  \<^verbatim>\<open>SIGTERM\<close> ends the process, the \<^verbatim>\<open>return\<close> is never reached.
\<close>

definition kill_then_return ::
  "environment \<Rightarrow> rt_gomp_clustering_launcher_error_codes \<Rightarrow> outcome" where
  "kill_then_return env code =
     (case sigterm env of
        Sigterm_terminates \<Rightarrow> Terminated_by SIGTERM
      | Sigterm_no_effect \<Rightarrow> Returned code)"

text \<open>
  The second component is \<open>None\<close> when the iteration falls through to the next one
  (the parent after a successful \<^verbatim>\<open>fork\<close>). The \<^verbatim>\<open>char *\<close> vector of lines
  282-289 is the \<open>c_str\<close> of every element of \<^verbatim>\<open>task_manager_argvector\<close>. A child
  whose \<^verbatim>\<open>execv\<close> fails runs the same code with what it inherited, \<open>sigterm\<close>
  included.
\<close>

definition launch_task ::
  "environment \<Rightarrow> 32 word \<Rightarrow> string \<Rightarrow> string \<Rightarrow> string \<Rightarrow> event list \<times> outcome option" where
  "launch_task env t task_command_line task_timing_line task_partition_line =
     (case task_argvector task_command_line task_timing_line task_partition_line of
        Inl diagnostic \<Rightarrow>
          ([diagnostic, Kill 0 SIGTERM],
           Some (kill_then_return env RT_GOMP_CLUSTERING_LAUNCHER_FILE_PARSE_ERROR))
      | Inr (program_name, task_manager_argvector) \<Rightarrow>
          (case fork_task env t of
             Fork_child \<Rightarrow>
               (case execv_task env t of
                  Exec_replaced \<Rightarrow>
                    ([Fprintf_stderr ''Forking and execv-ing task %s\<newline>''
                        [c_str program_name],
                      Fork Fork_child,
                      Execv (c_str program_name) (map c_str task_manager_argvector)],
                     Some Image_replaced)
                | Exec_returned \<Rightarrow>
                    ([Fprintf_stderr ''Forking and execv-ing task %s\<newline>''
                        [c_str program_name],
                      Fork Fork_child,
                      Execv (c_str program_name) (map c_str task_manager_argvector),
                      Perror ''Execv-ing a new task failed'',
                      Kill 0 SIGTERM],
                     Some (kill_then_return env RT_GOMP_CLUSTERING_LAUNCHER_FORK_EXECV_ERROR)))
           | Fork_error \<Rightarrow>
               ([Fprintf_stderr ''Forking and execv-ing task %s\<newline>'' [c_str program_name],
                 Fork Fork_error,
                 Perror ''Forking a new process for task failed'',
                 Kill 0 SIGTERM],
                Some (kill_then_return env RT_GOMP_CLUSTERING_LAUNCHER_FORK_EXECV_ERROR))
           | Fork_parent pid \<Rightarrow>
               ([Fprintf_stderr ''Forking and execv-ing task %s\<newline>'' [c_str program_name],
                 Fork (Fork_parent pid)],
                None)))"

subsection \<open>The launch loop (lines 174-319)\<close>

text \<open>
  \<^verbatim>\<open>getline(cmd) && getline(timing) && getline(partition)\<close>, lines 177-181; the
  \<^verbatim>\<open>&&\<close> stops at the first failure.
\<close>

definition getline3 :: "string \<Rightarrow> (string \<times> string \<times> string \<times> string) option" where
  "getline3 ifs =
     (case getline ifs of
        None \<Rightarrow> None
      | Some (task_command_line, ifs1) \<Rightarrow>
     (case getline ifs1 of
        None \<Rightarrow> None
      | Some (task_timing_line, ifs2) \<Rightarrow>
     (case getline ifs2 of
        None \<Rightarrow> None
      | Some (task_partition_line, ifs3) \<Rightarrow>
          Some (task_command_line, task_timing_line, task_partition_line, ifs3))))"

lemma getline3_shorter:
  "getline3 ifs = Some (c, t, p, ifs') \<Longrightarrow> length ifs' < length ifs"
  unfolding getline3_def
  by (auto split: option.splits dest!: getline_shorter)

text \<open>
  \<^verbatim>\<open>for (unsigned t = 1; t <= num_tasks; ++t)\<close>, entered at \<open>t\<close>. \<open>None\<close> as the
  second component: the loop ended and \<^verbatim>\<open>main\<close> goes on after it.
\<close>

function launch_tasks ::
  "environment \<Rightarrow> 32 word \<Rightarrow> 32 word \<Rightarrow> string \<Rightarrow> event list \<times> outcome option" where
  "launch_tasks env t num_tasks ifs =
     (if t \<le> num_tasks then
        (case getline3 ifs of
           None \<Rightarrow>
             ([Fprintf_stderr
                 ''ERROR: Provide three lines for each task in the schedule (.rtps) file'' [],
               Kill 0 SIGTERM],
              Some (kill_then_return env RT_GOMP_CLUSTERING_LAUNCHER_FILE_PARSE_ERROR))
         | Some (task_command_line, task_timing_line, task_partition_line, ifs') \<Rightarrow>
             (case launch_task env t task_command_line task_timing_line task_partition_line of
                (calls, Some out) \<Rightarrow> (calls, Some out)
              | (calls, None) \<Rightarrow>
                  (case launch_tasks env (t + 1) num_tasks ifs' of
                     (calls', out) \<Rightarrow> (calls @ calls', out))))
      else ([], None))"
  by pat_completeness auto
termination
  by (relation "measure (\<lambda>(env, t, num_tasks, ifs). length ifs)")
     (auto dest: getline3_shorter)

declare launch_tasks.simps [simp del]

subsection \<open>Waiting for the children (lines 97 and 327)\<close>

text \<open>
  \<^verbatim>\<open>while (!(wait(NULL) == -1 && errno == ECHILD));\<close> over the successive answers of
  \<^verbatim>\<open>wait\<close>. The status of a reaped child is not looked at. When the answers run out the
  last call never returns: the second component is \<open>False\<close>.
\<close>

fun wait_for_children :: "wait_result list \<Rightarrow> event list \<times> bool" where
  "wait_for_children [] = ([Wait], False)"
| "wait_for_children (r # rs) =
     (if r = Wait_failed ECHILD then ([Wait], True)
      else (case wait_for_children rs of (calls, finished) \<Rightarrow> (Wait # calls, finished)))"

text \<open>The calls \<open>calls\<close>, then the run \<open>r\<close>.\<close>

definition preceded_by :: "event list \<Rightarrow> event list \<times> 'a \<Rightarrow> event list \<times> 'a" where
  "preceded_by calls r = (calls @ fst r, snd r)"

subsection \<open>Checking for an up to date schedule (lines 55-98)\<close>

definition schedule_out_of_date :: "environment \<Rightarrow> bool" where
  "schedule_out_of_date env =
     (case stat_schedule env of
        None \<Rightarrow> True
      | Some schedule_mtime \<Rightarrow>
          (case stat_taskset env of
             None \<Rightarrow> False
           | Some taskset_mtime \<Rightarrow> taskset_mtime > schedule_mtime))"

definition run_scheduler_script :: "environment \<Rightarrow> event list \<times> outcome option" where
  "run_scheduler_script env =
     preceded_by
       [Fprintf_stderr ''Scheduling taskset %s ...\<newline>'' [argv env ! 1],
        Fork (fork_scheduler env)]
       (case fork_scheduler env of
          Fork_child \<Rightarrow>
            (case execvp_scheduler env of
               Exec_replaced \<Rightarrow>
                 ([Execvp ''python'' [''python'', ''cluster.py'', argv env ! 1]],
                  Some Image_replaced)
             | Exec_returned \<Rightarrow>
                 ([Execvp ''python'' [''python'', ''cluster.py'', argv env ! 1],
                   Perror ''Execv-ing scheduler script failed''],
                  Some (Returned RT_GOMP_CLUSTERING_LAUNCHER_FORK_EXECV_ERROR)))
        | Fork_error \<Rightarrow>
            ([Perror ''Forking a new process for scheduler script failed''],
             Some (Returned RT_GOMP_CLUSTERING_LAUNCHER_FORK_EXECV_ERROR))
        | Fork_parent pid \<Rightarrow>
            (case wait_for_children (wait_scheduler env) of
               (calls, finished) \<Rightarrow>
                 (calls, if finished then None else Some Blocked_in_wait)))"

definition check_schedule :: "environment \<Rightarrow> event list \<times> outcome option" where
  "check_schedule env =
     preceded_by [Stat (argv env ! 1 @ ''.rtpt''), Stat (argv env ! 1 @ ''.rtps'')]
       (if schedule_out_of_date env then
          (if stat_taskset env = None then
             ([Fprintf_stderr ''ERROR: Cannot open taskset file: %s''
                 [argv env ! 1 @ ''.rtpt'']],
              Some (Returned RT_GOMP_CLUSTERING_LAUNCHER_FILE_OPEN_ERROR))
           else run_scheduler_script env)
        else ([], None))"

subsection \<open>From the barrier to the end (lines 157-331)\<close>

definition start_tasks :: "environment \<Rightarrow> 32 word \<Rightarrow> string \<Rightarrow> event list \<times> outcome" where
  "start_tasks env num_tasks ifs =
     (case getline ifs of
        None \<Rightarrow>
          ([Fprintf_stderr ''ERROR: Missing system first and last cores line'' []],
           Returned RT_GOMP_CLUSTERING_LAUNCHER_FILE_PARSE_ERROR)
      | Some (core_range_line, ifs') \<Rightarrow>
          preceded_by [Init_single_use_barrier barrier_name num_tasks]
            (if barrier_ret_val env \<noteq> 0 then
               ([Fprintf_stderr ''ERROR: Failed to initialize barrier'' []],
                Returned RT_GOMP_CLUSTERING_LAUNCHER_BARRIER_INITIALIZATION_ERROR)
             else
               (case launch_tasks env 1 num_tasks ifs' of
                  (calls, Some out) \<Rightarrow> (calls, out)
                | (calls, None) \<Rightarrow>
                    preceded_by (calls @ [Fprintf_stderr ''All tasks started\<newline>'' []])
                      (case wait_for_children (wait_tasks env) of
                         (calls', True) \<Rightarrow>
                           (calls' @ [Fprintf_stderr ''All tasks finished\<newline>'' []],
                            Returned RT_GOMP_CLUSTERING_LAUNCHER_SUCCESS)
                       | (calls', False) \<Rightarrow> (calls', Blocked_in_wait)))))"

subsection \<open>Checking if the taskset is schedulable (lines 123-155)\<close>

definition check_schedulability ::
  "environment \<Rightarrow> 32 word \<Rightarrow> string \<Rightarrow> event list \<times> outcome" where
  "check_schedulability env num_tasks ifs =
     (case getline ifs of
        None \<Rightarrow>
          ([Fprintf_stderr ''ERROR: Schedulability improperly specified'' []],
           Returned RT_GOMP_CLUSTERING_LAUNCHER_FILE_PARSE_ERROR)
      | Some (schedulability_line, ifs') \<Rightarrow>
          (case extract_unsigned schedulability_line of
             None \<Rightarrow>
               ([Fprintf_stderr ''ERROR: Schedulability improperly specified'' []],
                Returned RT_GOMP_CLUSTERING_LAUNCHER_FILE_PARSE_ERROR)
           | Some schedulability \<Rightarrow>
               (if schedulability = 0 then
                  preceded_by
                    [Fprintf_stderr ''Taskset is schedulable: %s\<newline>'' [argv env ! 1]]
                    (start_tasks env num_tasks ifs')
                else if schedulability = 1 then
                  preceded_by
                    [Fprintf_stderr ''WARNING: Taskset may not be schedulable: %s\<newline>''
                       [argv env ! 1]]
                    (start_tasks env num_tasks ifs')
                else
                  ([Fprintf_stderr ''ERROR: Taskset NOT schedulable: %s'' [argv env ! 1]],
                   Returned RT_GOMP_CLUSTERING_LAUNCHER_UNSCHEDULABLE_ERROR))))"

subsection \<open>Counting the tasks (lines 108-121)\<close>

text \<open>
  \<open>content\<close> is the whole file. After the count the stream is rewound
  (\<^verbatim>\<open>ifs.clear(); ifs.seekg(0, std::ios::beg)\<close>), so what follows reads \<open>content\<close>
  from its start again. \<open>num_tasks\<close> is computed before the test, by unsigned
  subtraction and division.
\<close>

definition read_schedule :: "environment \<Rightarrow> string \<Rightarrow> event list \<times> outcome" where
  "read_schedule env content =
     (let num_lines = count_lines content 0;
          num_tasks = (num_lines - 2) div 3
      in if \<not> (2 \<le> num_lines \<and> (num_lines - 2) mod 3 = 0) then
           ([Fprintf_stderr ''ERROR: Invalid number of lines in schedule file'' []],
            Returned RT_GOMP_CLUSTERING_LAUNCHER_FILE_PARSE_ERROR)
         else check_schedulability env num_tasks content)"

subsection \<open>\<^verbatim>\<open>main\<close> (lines 28-331)\<close>

text \<open>\<^verbatim>\<open>argc\<close> is the length of \<open>argv\<close>.\<close>

definition main :: "environment \<Rightarrow> event list \<times> outcome" where
  "main env =
     (if length (argv env) \<noteq> 2 then
        ([Fprintf_stderr
            ''ERROR: The program must receive a single argument which is the taskset/schedule filename without any extension.''
            []],
         Returned RT_GOMP_CLUSTERING_LAUNCHER_ARGUMENT_ERROR)
      else
        (case check_schedule env of
           (calls, Some out) \<Rightarrow> (calls, out)
         | (calls, None) \<Rightarrow>
             preceded_by (calls @ [Ifstream_open (argv env ! 1 @ ''.rtps'')])
               (case schedule_file env of
                  None \<Rightarrow>
                    ([Fprintf_stderr ''ERROR: Cannot open schedule file'' []],
                     Returned RT_GOMP_CLUSTERING_LAUNCHER_FILE_OPEN_ERROR)
                | Some content \<Rightarrow> read_schedule env content)))"

subsection \<open>Schedules and environments of the examples\<close>

text \<open>The schedule file of the specification's scenario: one task, \<^verbatim>\<open>workerA\<close>.\<close>

definition scenario_schedule :: string where
  "scenario_schedule =
     ''0\<newline>0-3\<newline>workerA -x\<newline>0 0 0 0 1 2 3 4 5 6 7\<newline>part1 part2 part3\<newline>''"

text \<open>
  A run on an up to date schedule file with content \<open>content\<close>, in which every
  \<^verbatim>\<open>fork\<close> of the launch loop answers \<open>r\<close> and every \<^verbatim>\<open>execv\<close> \<open>x\<close>,
  \<^verbatim>\<open>SIGTERM\<close> has its default action and no task program has changed anything.
\<close>

definition run_on :: "string \<Rightarrow> fork_result \<Rightarrow> exec_result \<Rightarrow> environment" where
  "run_on content r x =
     \<lparr> argv = [''clustering_launcher'', ''base''],
       stat_taskset = Some 1, stat_schedule = Some 2,
       fork_scheduler = Fork_error, execvp_scheduler = Exec_returned, wait_scheduler = [],
       schedule_file = Some content, barrier_ret_val = 0,
       fork_task = (\<lambda>t. r), execv_task = (\<lambda>t. x),
       wait_tasks = [Wait_reaped 100 0, Wait_failed ECHILD],
       sigterm = Sigterm_terminates, task_behaviour = (\<lambda>pid. Keeps_inherited) \<rparr>"



text \<open>The scenario's schedule with another second line.\<close>

definition scenario_other_core_range :: string where
  "scenario_other_core_range =
     ''0\<newline>no cores at all\<newline>workerA -x\<newline>0 0 0 0 1 2 3 4 5 6 7\<newline>part1 part2 part3\<newline>''"

text \<open>A schedule of three lines, which fails the line count.\<close>

definition three_line_schedule :: string where
  "three_line_schedule = ''0\<newline>0-3\<newline>workerA -x\<newline>''"

text \<open>
  A schedule of \<open>2 ^ 32 + 2\<close> lines: the line \<^verbatim>\<open>0\<close> and \<open>2 ^ 32 + 1\<close> empty
  lines.
\<close>

definition wrapping_schedule :: string where
  "wrapping_schedule = ''0\<newline>'' @ replicate 4294967297 (CHR 0x0A)"

text \<open>The scenario's schedule with an empty second line.\<close>

definition empty_core_range_schedule :: string where
  "empty_core_range_schedule =
     ''0\<newline>\<newline>workerA -x\<newline>0 0 0 0 1 2 3 4 5 6 7\<newline>part1 part2 part3\<newline>''"

text \<open>The scenario's schedule with the verdict 2, and the same with the verdict 1.\<close>

definition infeasible_schedule :: string where
  "infeasible_schedule =
     ''2\<newline>0-3\<newline>workerA -x\<newline>0 0 0 0 1 2 3 4 5 6 7\<newline>part1 part2 part3\<newline>''"

definition marginal_schedule :: string where
  "marginal_schedule =
     ''1\<newline>0-3\<newline>workerA -x\<newline>0 0 0 0 1 2 3 4 5 6 7\<newline>part1 part2 part3\<newline>''"

text \<open>A run in which neither the schedule file nor the taskset file exists.\<close>

definition both_files_missing :: environment where
  "both_files_missing =
     (run_on [] (Fork_parent 100) Exec_replaced)
       \<lparr>stat_taskset := None, stat_schedule := None, fork_scheduler := Fork_parent 7,
        wait_scheduler := [Wait_reaped 7 0, Wait_failed ECHILD]\<rparr>"

text \<open>
  A run in which the schedule file is missing, the taskset file exists, and the scheduler
  script exits with status \<open>status\<close>.
\<close>

definition schedule_missing :: "int \<Rightarrow> environment" where
  "schedule_missing status =
     (run_on scenario_schedule (Fork_parent 100) Exec_replaced)
       \<lparr>stat_schedule := None, fork_scheduler := Fork_parent 7,
        wait_scheduler := [Wait_reaped 7 status, Wait_failed ECHILD]\<rparr>"

subsection \<open>The calls a stage of \<^verbatim>\<open>main\<close> can make\<close>

text \<open>
  The calls of the launch loop: \<^verbatim>\<open>fprintf\<close>, \<^verbatim>\<open>perror\<close>, \<^verbatim>\<open>fork\<close>,
  \<^verbatim>\<open>execv\<close> and \<^verbatim>\<open>kill\<close>.
\<close>

fun loop_call :: "event \<Rightarrow> bool" where
  "loop_call (Fprintf_stderr fmt a) = True"
| "loop_call (Perror s) = True"
| "loop_call (Fork r) = True"
| "loop_call (Execv file v) = True"
| "loop_call (Kill pid sig) = True"
| "loop_call _ = False"

text \<open>The calls of the check for an up to date schedule.\<close>

fun check_call :: "event \<Rightarrow> bool" where
  "check_call (Stat file) = True"
| "check_call (Fprintf_stderr fmt a) =
     (fmt = ''ERROR: Cannot open taskset file: %s'' \<or> fmt = ''Scheduling taskset %s ...\<newline>'')"
| "check_call (Fork r) = True"
| "check_call (Execvp file v) = True"
| "check_call (Perror s) = True"
| "check_call Wait = True"
| "check_call _ = False"

subsection \<open>The tasks and the signal\<close>







subsection \<open>Invoking the scheduler script\<close>

text \<open>
  The external scheduling step is invoked when the launcher creates a child (its
  \<^verbatim>\<open>fork\<close> answers the child's process id) and that child, which runs the same code
  in the same environment with \<^verbatim>\<open>fork\<close> answering 0, calls \<^verbatim>\<open>execvp\<close> on
  \<^verbatim>\<open>python\<close> with the arguments \<^verbatim>\<open>python\<close>, \<^verbatim>\<open>cluster.py\<close> and \<^verbatim>\<open>argv[1]\<close>.
\<close>

definition scheduler_invoked :: "environment \<Rightarrow> bool" where
  "scheduler_invoked env =
     ((case fork_scheduler env of Fork_parent pid \<Rightarrow> True | _ \<Rightarrow> False)
      \<and> Fork (fork_scheduler env) \<in> set (fst (check_schedule env))
      \<and> Execvp ''python'' [''python'', ''cluster.py'', argv env ! 1]
          \<in> set (fst (check_schedule (env\<lparr>fork_scheduler := Fork_child\<rparr>))))"

subsection \<open>More schedules and environments of the examples\<close>



text \<open>The scenario's schedule with a NUL character inside the first partition token.\<close>

definition nul_schedule :: string where
  "nul_schedule =
     ''0\<newline>0-3\<newline>workerA -x\<newline>0 0 0 0 1 2 3 4 5 6 7\<newline>pa'' @ [CHR 0x00]
       @ ''rt1 part2 part3\<newline>''"

text \<open>
  A run in which the schedule file is missing, the taskset file exists, and the
  \<^verbatim>\<open>fork\<close> for the scheduler script fails.\<close>

definition scheduler_fork_fails :: environment where
  "scheduler_fork_fails =
     (run_on scenario_schedule (Fork_parent 100) Exec_replaced)
       \<lparr>stat_schedule := None, fork_scheduler := Fork_error\<rparr>"

section \<open>Properties of the library operations\<close>

lemma lines_of_getline:
  "getline ifs = Some (line, ifs') \<Longrightarrow> lines_of ifs = line # lines_of ifs'"
  by (subst lines_of.simps) simp

lemma lines_of_empty_iff: "lines_of ifs = [] \<longleftrightarrow> getline ifs = None"
  by (subst lines_of.simps) (simp split: option.splits)

lemma lines_of_Cons:
  "lines_of ifs = line # ls \<Longrightarrow> \<exists>ifs'. getline ifs = Some (line, ifs') \<and> lines_of ifs' = ls"
  by (subst (asm) lines_of.simps) (auto split: option.splits)

text \<open>The counting loop adds the number of lines, modulo \<open>2 ^ 32\<close>.\<close>

lemma count_lines_eq: "count_lines ifs n = n + word_of_nat (length (lines_of ifs))"
proof (induction ifs n rule: count_lines.induct)
  case (1 ifs num_lines)
  show ?case
  proof (cases "getline ifs")
    case None
    then have "count_lines ifs num_lines = num_lines"
      by (subst count_lines.simps) simp
    moreover from None have "lines_of ifs = []"
      by (simp add: lines_of_empty_iff)
    ultimately show ?thesis by simp
  next
    case (Some p)
    obtain line ifs' where p: "p = (line, ifs')" by (cases p)
    have "count_lines ifs num_lines = count_lines ifs' (num_lines + 1)"
      using Some p by (subst count_lines.simps) simp
    moreover have "lines_of ifs = line # lines_of ifs'"
      using Some p by (simp add: lines_of_getline)
    moreover have "count_lines ifs' (num_lines + 1)
        = num_lines + 1 + word_of_nat (length (lines_of ifs'))"
      by (rule "1.IH" [OF Some p [symmetric]])
    ultimately show ?thesis by simp
  qed
qed

lemma tokens_None: "extract_string s = None \<Longrightarrow> tokens s = []"
  unfolding tokens_def by (subst read_task_args.simps) simp

lemma read_task_args_tokens: "read_task_args s v = v @ tokens s"
proof (induction "length s" arbitrary: s v rule: less_induct)
  case less
  show ?case
  proof (cases "extract_string s")
    case None
    then have "read_task_args s v = v"
      by (subst read_task_args.simps) simp
    with None show ?thesis
      by (simp add: tokens_None)
  next
    case (Some p)
    obtain a rest where p: "p = (a, rest)" by (cases p)
    have step: "read_task_args s w = read_task_args rest (w @ [a])" for w
      using Some p by (subst read_task_args.simps) simp
    have "length rest < length s"
      using Some p by (auto dest: extract_string_shorter)
    then have ih: "read_task_args rest w = w @ tokens rest" for w
      by (rule less.hyps)
    have "tokens s = [a] @ tokens rest"
      unfolding tokens_def [of s] using step [of "[]"] ih [of "[a]"] by simp
    moreover have "read_task_args s v = (v @ [a]) @ tokens rest"
      using step [of v] ih [of "v @ [a]"] by simp
    ultimately show ?thesis by simp
  qed
qed

lemma tokens_Some: "extract_string s = Some (a, rest) \<Longrightarrow> tokens s = a # tokens rest"
proof -
  assume e: "extract_string s = Some (a, rest)"
  have "tokens s = read_task_args rest [a]"
    unfolding tokens_def using e by (subst read_task_args.simps) simp
  then show ?thesis
    by (simp add: read_task_args_tokens)
qed

lemma extract_string_None_iff: "extract_string s = None \<longleftrightarrow> tokens s = []"
  by (cases "extract_string s") (auto simp: tokens_None tokens_Some)

lemma read_params_None_iff: "read_params n s v = None \<longleftrightarrow> length (tokens s) < n"
proof (induction n arbitrary: s v)
  case 0
  show ?case by simp
next
  case (Suc n)
  show ?case
    by (cases "extract_string s") (auto simp: tokens_None tokens_Some Suc.IH)
qed

lemma read_params_Some:
  "read_params n s v = Some (v', s') \<Longrightarrow>
     v' = v @ take n (tokens s) \<and> tokens s' = drop n (tokens s)"
proof (induction n arbitrary: s v)
  case 0
  then show ?case by simp
next
  case (Suc n)
  from Suc.prems obtain a rest where e: "extract_string s = Some (a, rest)"
    and r: "read_params n rest (v @ [a]) = Some (v', s')"
    by (auto split: option.splits)
  from Suc.IH [OF r] e show ?case
    by (simp add: tokens_Some)
qed

lemma skip_params_None_iff: "skip_params n s = None \<longleftrightarrow> length (tokens s) < n"
proof (induction n arbitrary: s)
  case 0
  show ?case by simp
next
  case (Suc n)
  show ?case
    by (cases "extract_string s") (auto simp: tokens_None tokens_Some Suc.IH)
qed

lemma skip_params_Some:
  "skip_params n s = Some s' \<Longrightarrow> tokens s' = drop n (tokens s)"
proof (induction n arbitrary: s)
  case 0
  then show ?case by simp
next
  case (Suc n)
  from Suc.prems obtain a rest where e: "extract_string s = Some (a, rest)"
    and r: "skip_params n rest = Some s'"
    by (auto split: option.splits)
  from Suc.IH [OF r] e show ?case
    by (simp add: tokens_Some)
qed

section \<open>The argument vector of a task\<close>

text \<open>
  Which branch of lines 183-279 is taken depends only on how many tokens each of the
  three lines has, in the order the source tests them.
\<close>

lemma task_argvector_by_counts:
  "task_argvector task_command_line task_timing_line task_partition_line =
     (case tokens task_command_line of
        [] \<Rightarrow> Inl (Fprintf_stderr ''ERROR: Program name not provided for task'' [])
      | program_name # args \<Rightarrow>
          (if length (tokens task_partition_line) < 3 then
             Inl (Fprintf_stderr
               ''ERROR: Too few partition parameters were provided for task %s''
               [c_str program_name])
           else if 3 < length (tokens task_partition_line) then
             Inl (Fprintf_stderr
               ''ERROR: Too many partition parameters were provided for task %s''
               [c_str program_name])
           else if length (tokens task_timing_line) < 11 then
             Inl (Fprintf_stderr
               ''ERROR: Too few timing parameters were provided for task %s''
               [c_str program_name])
           else if 11 < length (tokens task_timing_line) then
             Inl (Fprintf_stderr
               ''ERROR: Too many timing parameters were provided for task %s''
               [c_str program_name])
           else
             Inr (program_name,
                  program_name # tokens task_partition_line @ drop 4 (tokens task_timing_line)
                    @ [barrier_name, program_name] @ args)))"
proof (cases "extract_string task_command_line")
  case None
  then show ?thesis
    by (simp add: task_argvector_def tokens_None)
next
  case (Some p)
  obtain program_name task_command_stream where p: "p = (program_name, task_command_stream)"
    by (cases p)
  have cmd: "tokens task_command_line = program_name # tokens task_command_stream"
    using Some p by (simp add: tokens_Some)
  show ?thesis
  proof (cases "read_params num_partition_params task_partition_line [program_name]")
    case None
    then have "length (tokens task_partition_line) < 3"
      by (simp add: read_params_None_iff num_partition_params_def)
    with None Some p cmd show ?thesis
      by (simp add: task_argvector_def)
  next
    case part: (Some q)
    obtain argvector1 task_partition_stream where q: "q = (argvector1, task_partition_stream)"
      by (cases q)
    from part q have ge3: "\<not> length (tokens task_partition_line) < 3"
      using read_params_None_iff [of num_partition_params task_partition_line "[program_name]"]
      by (simp add: num_partition_params_def)
    from part q have v1: "argvector1 = [program_name] @ take 3 (tokens task_partition_line)"
      and ps: "tokens task_partition_stream = drop 3 (tokens task_partition_line)"
      by (auto dest: read_params_Some simp: num_partition_params_def)
    show ?thesis
    proof (cases "extract_string task_partition_stream")
      case extra: (Some e)
      then have "tokens task_partition_stream \<noteq> []"
        using extract_string_None_iff [of task_partition_stream] by simp
      with ps have "3 < length (tokens task_partition_line)" by simp
      with extra part q Some p cmd show ?thesis
        by (simp add: task_argvector_def)
    next
      case None
      then have "tokens task_partition_stream = []"
        by (simp add: extract_string_None_iff)
      with ps ge3 have len3: "length (tokens task_partition_line) = 3" by simp
      show ?thesis
      proof (cases "skip_params num_skipped_timing_params task_timing_line")
        case skip: None
        then have "length (tokens task_timing_line) < 4"
          by (simp add: skip_params_None_iff num_skipped_timing_params_def)
        with skip None part q Some p cmd len3 show ?thesis
          by (simp add: task_argvector_def)
      next
        case skip: (Some task_timing_stream)
        then have ge4: "\<not> length (tokens task_timing_line) < 4"
          using skip_params_None_iff [of num_skipped_timing_params task_timing_line]
          by (simp add: num_skipped_timing_params_def)
        from skip have ts: "tokens task_timing_stream = drop 4 (tokens task_timing_line)"
          by (auto dest: skip_params_Some simp: num_skipped_timing_params_def)
        show ?thesis
        proof (cases "read_params (num_timing_params - num_skipped_timing_params)
                        task_timing_stream argvector1")
          case rd: None
          then have "length (tokens task_timing_stream) < 7"
            by (simp add: read_params_None_iff num_timing_params_def
                  num_skipped_timing_params_def)
          with ts have "length (tokens task_timing_line) < 11" by simp
          with rd skip None part q Some p cmd len3 show ?thesis
            by (simp add: task_argvector_def)
        next
          case rd: (Some r)
          obtain argvector2 task_timing_stream' where r: "r = (argvector2, task_timing_stream')"
            by (cases r)
          from rd r have "\<not> length (tokens task_timing_stream) < 7"
            using read_params_None_iff [of "num_timing_params - num_skipped_timing_params"
                task_timing_stream argvector1]
            by (simp add: num_timing_params_def num_skipped_timing_params_def)
          with ts have ge11: "\<not> length (tokens task_timing_line) < 11" by simp
          from rd r have v2: "argvector2 = argvector1 @ take 7 (tokens task_timing_stream)"
            and ts': "tokens task_timing_stream' = drop 7 (tokens task_timing_stream)"
            by (auto dest: read_params_Some
                  simp: num_timing_params_def num_skipped_timing_params_def)
          show ?thesis
          proof (cases "extract_string task_timing_stream'")
            case extra: (Some e)
            then have "tokens task_timing_stream' \<noteq> []"
              using extract_string_None_iff [of task_timing_stream'] by simp
            with ts ts' have "11 < length (tokens task_timing_line)" by simp
            with extra rd r skip None part q Some p cmd len3 show ?thesis
              by (simp add: task_argvector_def)
          next
            case last: None
            then have "tokens task_timing_stream' = []"
              by (simp add: extract_string_None_iff)
            with ts ts' ge11 have len11: "length (tokens task_timing_line) = 11" by simp
            have "argvector2 = program_name # tokens task_partition_line
                    @ drop 4 (tokens task_timing_line)"
              using v1 v2 ts len3 len11 by simp
            with last rd r skip None part q Some p cmd len3 len11 show ?thesis
              by (simp add: task_argvector_def read_task_args_tokens)
          qed
        qed
      qed
    qed
  qed
qed

text \<open>
  Claim C1. On the schedule file with the lines \<^verbatim>\<open>0\<close>, \<^verbatim>\<open>0-3\<close>,
  \<^verbatim>\<open>workerA -x\<close>, \<^verbatim>\<open>0 0 0 0 1 2 3 4 5 6 7\<close>, \<^verbatim>\<open>part1 part2 part3\<close> the
  child created for the one task calls \<^verbatim>\<open>execv\<close> on \<^verbatim>\<open>workerA\<close> with exactly the
  vector workerA, part1, part2, part3, 1, ..., 7, RT_GOMP_CLUSTERING_BARRIER, workerA, -x.
  In general, when the command line has a program path, the partition line three tokens
  and the timing line eleven, the vector is the program path, the three partition tokens,
  timing tokens 5 to 11, the barrier name, the program path again, and the rest of the
  command line, all in their order.
\<close>

theorem C1_argument_vector:
  "last (fst (main (run_on scenario_schedule Fork_child Exec_replaced))) =
     Execv ''workerA''
       [''workerA'', ''part1'', ''part2'', ''part3'', ''1'', ''2'', ''3'', ''4'', ''5'', ''6'',
        ''7'', ''RT_GOMP_CLUSTERING_BARRIER'', ''workerA'', ''-x'']
   \<and> (tokens task_command_line = program_path # args
        \<and> tokens task_partition_line = [p0, p1, p2]
        \<and> tokens task_timing_line = [t0, t1, t2, t3, t4, t5, t6, t7, t8, t9, t10]
      \<longrightarrow> task_argvector task_command_line task_timing_line task_partition_line =
            Inr (program_path,
                 [program_path, p0, p1, p2, t4, t5, t6, t7, t8, t9, t10,
                  barrier_name, program_path] @ args))"
proof
  show "last (fst (main (run_on scenario_schedule Fork_child Exec_replaced))) =
     Execv ''workerA''
       [''workerA'', ''part1'', ''part2'', ''part3'', ''1'', ''2'', ''3'', ''4'', ''5'', ''6'',
        ''7'', ''RT_GOMP_CLUSTERING_BARRIER'', ''workerA'', ''-x'']"
    by code_simp
next
  show "tokens task_command_line = program_path # args
        \<and> tokens task_partition_line = [p0, p1, p2]
        \<and> tokens task_timing_line = [t0, t1, t2, t3, t4, t5, t6, t7, t8, t9, t10]
      \<longrightarrow> task_argvector task_command_line task_timing_line task_partition_line =
            Inr (program_path,
                 [program_path, p0, p1, p2, t4, t5, t6, t7, t8, t9, t10,
                  barrier_name, program_path] @ args)"
    by (simp add: task_argvector_by_counts)
qed

theorem C1_argument_vector_witness:
  "tokens ''workerA -x'' = [''workerA'', ''-x'']
   \<and> tokens ''part1 part2 part3'' = [''part1'', ''part2'', ''part3'']
   \<and> tokens ''0 0 0 0 1 2 3 4 5 6 7'' =
       [''0'', ''0'', ''0'', ''0'', ''1'', ''2'', ''3'', ''4'', ''5'', ''6'', ''7'']
   \<and> task_argvector ''workerA -x'' ''0 0 0 0 1 2 3 4 5 6 7'' ''part1 part2 part3'' =
       Inr (''workerA'',
            [''workerA'', ''part1'', ''part2'', ''part3'', ''1'', ''2'', ''3'', ''4'', ''5'',
             ''6'', ''7'', barrier_name, ''workerA'', ''-x''])"
proof -
  have c: "tokens ''workerA -x'' = ''workerA'' # [''-x'']"
    by code_simp
  have p: "tokens ''part1 part2 part3'' = [''part1'', ''part2'', ''part3'']"
    by code_simp
  have t: "tokens ''0 0 0 0 1 2 3 4 5 6 7'' =
       [''0'', ''0'', ''0'', ''0'', ''1'', ''2'', ''3'', ''4'', ''5'', ''6'', ''7'']"
    by code_simp
  from c p t
    C1_argument_vector [where task_command_line = "''workerA -x''"
      and task_partition_line = "''part1 part2 part3''"
      and task_timing_line = "''0 0 0 0 1 2 3 4 5 6 7''"
      and program_path = "''workerA''" and args = "[''-x'']"
      and ?p0.0 = "''part1''" and ?p1.0 = "''part2''" and ?p2.0 = "''part3''"
      and ?t0.0 = "''0''" and ?t1.0 = "''0''" and ?t2.0 = "''0''" and ?t3.0 = "''0''"
      and ?t4.0 = "''1''" and ?t5.0 = "''2''" and ?t6.0 = "''3''" and ?t7.0 = "''4''"
      and ?t8.0 = "''5''" and ?t9.0 = "''6''" and ?t10.0 = "''7''"]
  show ?thesis by simp
qed

lemma getline3_None_iff: "getline3 ifs = None \<longleftrightarrow> length (lines_of ifs) < 3"
  unfolding getline3_def
  by (auto split: option.splits simp: lines_of_getline lines_of_empty_iff [symmetric])

lemma getline3_lines:
  "getline3 ifs = Some (c, t, p, ifs') \<Longrightarrow> lines_of ifs = c # t # p # lines_of ifs'"
  unfolding getline3_def
  by (auto split: option.splits simp: lines_of_getline)

lemma getline3_of_lines:
  "lines_of ifs = c # t # p # ls \<Longrightarrow>
     \<exists>ifs'. getline3 ifs = Some (c, t, p, ifs') \<and> lines_of ifs' = ls"
proof -
  assume l: "lines_of ifs = c # t # p # ls"
  then obtain ifs1 where 1: "getline ifs = Some (c, ifs1)" and l1: "lines_of ifs1 = t # p # ls"
    by (auto dest: lines_of_Cons)
  from l1 obtain ifs2 where 2: "getline ifs1 = Some (t, ifs2)" and l2: "lines_of ifs2 = p # ls"
    by (auto dest: lines_of_Cons)
  from l2 obtain ifs3 where 3: "getline ifs2 = Some (p, ifs3)" and l3: "lines_of ifs3 = ls"
    by (auto dest: lines_of_Cons)
  from 1 2 3 l3 show ?thesis
    by (simp add: getline3_def)
qed

lemma unat_num_lines:
  fixes num_lines :: "32 word"
  assumes "2 \<le> num_lines" and "(num_lines - 2) mod 3 = 0"
  shows "unat num_lines = 3 * unat ((num_lines - 2) div 3) + 2"
proof -
  have two: "2 \<le> unat num_lines"
    using assms(1) by (simp add: word_le_nat_alt)
  have sub: "unat (num_lines - 2) = unat num_lines - 2"
    using assms(1) by (simp add: unat_sub)
  have "unat ((num_lines - 2) mod 3) = 0"
    using assms(2) by simp
  then have m: "(unat num_lines - 2) mod 3 = 0"
    by (simp add: unat_mod sub)
  have d: "unat ((num_lines - 2) div 3) = (unat num_lines - 2) div 3"
    by (simp add: unat_div sub)
  from two m show ?thesis
    unfolding d by presburger
qed

lemma num_tasks_small:
  fixes num_lines :: "32 word"
  shows "unat ((num_lines - 2) div 3) < 4294967295"
proof -
  have "unat (num_lines - 2) < 2 ^ 32"
    using unsigned_less [of "num_lines - 2"] by simp
  then show ?thesis
    by (simp add: unat_div)
qed

lemma unat_word_of_nat_le: "unat (word_of_nat n :: 32 word) \<le> n"
  by (simp add: unat_of_nat)

lemma launch_tasks_stop:
  "\<not> t \<le> num_tasks \<Longrightarrow> launch_tasks env t num_tasks ifs = ([], None)"
  by (subst launch_tasks.simps) simp

lemma launch_tasks_missing:
  "t \<le> num_tasks \<Longrightarrow> getline3 ifs = None \<Longrightarrow>
     launch_tasks env t num_tasks ifs =
       ([Fprintf_stderr
           ''ERROR: Provide three lines for each task in the schedule (.rtps) file'' [],
         Kill 0 SIGTERM],
        Some (kill_then_return env RT_GOMP_CLUSTERING_LAUNCHER_FILE_PARSE_ERROR))"
  by (subst launch_tasks.simps) simp

lemma launch_tasks_step:
  "t \<le> num_tasks \<Longrightarrow> getline3 ifs = Some (c, tm, p, ifs') \<Longrightarrow>
     launch_tasks env t num_tasks ifs =
       (case launch_task env t c tm p of
          (calls, Some out) \<Rightarrow> (calls, Some out)
        | (calls, None) \<Rightarrow>
            (case launch_tasks env (t + 1) num_tasks ifs' of
               (calls', out) \<Rightarrow> (calls @ calls', out)))"
  by (subst launch_tasks.simps) simp

text \<open>What one iteration can do.\<close>

lemma task_argvector_diagnostic:
  "task_argvector c tm p = Inl d \<Longrightarrow>
     \<exists>fmt a. d = Fprintf_stderr fmt a \<and>
       fmt \<noteq> ''ERROR: Provide three lines for each task in the schedule (.rtps) file''"
  by (auto simp: task_argvector_by_counts split: list.splits if_splits)

lemma launch_task_cases:
  "launch_task env t c tm p = (calls, out) \<Longrightarrow>
     (\<exists>d. task_argvector c tm p = Inl d \<and> calls = [d, Kill 0 SIGTERM]
        \<and> out = Some (kill_then_return env RT_GOMP_CLUSTERING_LAUNCHER_FILE_PARSE_ERROR))
   \<or> (\<exists>prog v. task_argvector c tm p = Inr (prog, v) \<and>
        (fork_task env t = Fork_child \<and> execv_task env t = Exec_replaced
           \<and> calls = [Fprintf_stderr ''Forking and execv-ing task %s\<newline>'' [c_str prog],
                Fork Fork_child, Execv (c_str prog) (map c_str v)]
           \<and> out = Some Image_replaced
         \<or> fork_task env t = Fork_child \<and> execv_task env t = Exec_returned
           \<and> calls = [Fprintf_stderr ''Forking and execv-ing task %s\<newline>'' [c_str prog],
                Fork Fork_child, Execv (c_str prog) (map c_str v),
                Perror ''Execv-ing a new task failed'', Kill 0 SIGTERM]
           \<and> out = Some (kill_then_return env RT_GOMP_CLUSTERING_LAUNCHER_FORK_EXECV_ERROR)
         \<or> fork_task env t = Fork_error
           \<and> calls = [Fprintf_stderr ''Forking and execv-ing task %s\<newline>'' [c_str prog],
                Fork Fork_error, Perror ''Forking a new process for task failed'',
                Kill 0 SIGTERM]
           \<and> out = Some (kill_then_return env RT_GOMP_CLUSTERING_LAUNCHER_FORK_EXECV_ERROR)
         \<or> (\<exists>pid. fork_task env t = Fork_parent pid
           \<and> calls = [Fprintf_stderr ''Forking and execv-ing task %s\<newline>'' [c_str prog],
                Fork (Fork_parent pid)]
           \<and> out = None)))"
  unfolding launch_task_def
  by (auto split: sum.splits fork_result.splits exec_result.splits)

lemma launch_task_loop_calls:
  "launch_task env t c tm p = (calls, out) \<Longrightarrow> list_all loop_call calls"
  by (drule launch_task_cases) (auto dest: task_argvector_diagnostic)

lemma launch_tasks_loop_calls:
  "launch_tasks env t num_tasks ifs = (calls, out) \<Longrightarrow> list_all loop_call calls"
proof (induction "length ifs" arbitrary: ifs t calls out rule: less_induct)
  case less
  show ?case
  proof (cases "t \<le> num_tasks")
    case False
    with less.prems show ?thesis
      by (simp add: launch_tasks_stop)
  next
    case le: True
    show ?thesis
    proof (cases "getline3 ifs")
      case None
      with le less.prems show ?thesis
        by (auto simp: launch_tasks_missing)
    next
      case (Some q)
      obtain c tm p ifs' where q: "q = (c, tm, p, ifs')"
        by (cases q)
      obtain calls1 out1 where lt: "launch_task env t c tm p = (calls1, out1)"
        by (cases "launch_task env t c tm p")
      obtain calls2 out2 where rest: "launch_tasks env (t + 1) num_tasks ifs' = (calls2, out2)"
        by (cases "launch_tasks env (t + 1) num_tasks ifs'")
      have "length ifs' < length ifs"
        using Some q by (auto dest: getline3_shorter)
      from less.hyps [OF this rest] have 2: "list_all loop_call calls2" .
      from launch_task_loop_calls [OF lt] have 1: "list_all loop_call calls1" .
      from launch_tasks_step [OF le Some [unfolded q], of env] lt rest less.prems 1 2
      show ?thesis
        by (cases out1) auto
    qed
  qed
qed

text \<open>
  With three lines left for each iteration still to run, no iteration finds a line missing.
\<close>

lemma launch_tasks_enough_lines:
  "unat num_tasks < 4294967295 \<Longrightarrow>
   3 * (Suc (unat num_tasks) - unat t) \<le> length (lines_of ifs) \<Longrightarrow>
     Fprintf_stderr ''ERROR: Provide three lines for each task in the schedule (.rtps) file'' []
       \<notin> set (fst (launch_tasks env t num_tasks ifs))"
proof (induction "length ifs" arbitrary: ifs t rule: less_induct)
  case less
  show ?case
  proof (cases "t \<le> num_tasks")
    case False
    then show ?thesis
      by (simp add: launch_tasks_stop)
  next
    case le: True
    then have tn: "unat t \<le> unat num_tasks"
      by (simp add: word_le_nat_alt)
    with less.prems have "3 \<le> length (lines_of ifs)"
      by simp
    then obtain q where Some: "getline3 ifs = Some q"
      using getline3_None_iff [of ifs] by (cases "getline3 ifs") auto
    obtain c tm p ifs' where q: "q = (c, tm, p, ifs')"
      by (cases q)
    obtain calls1 out1 where lt: "launch_task env t c tm p = (calls1, out1)"
      by (cases "launch_task env t c tm p")
    have 1: "Fprintf_stderr
        ''ERROR: Provide three lines for each task in the schedule (.rtps) file'' []
        \<notin> set calls1"
      using launch_task_cases [OF lt] by (auto dest: task_argvector_diagnostic)
    have "length ifs' < length ifs"
      using Some q by (auto dest: getline3_shorter)
    moreover have "unat (t + 1) = Suc (unat t)"
      using tn less.prems(1) by (simp add: unat_word_ariths)
    moreover have "lines_of ifs = c # tm # p # lines_of ifs'"
      using Some q by (simp add: getline3_lines)
    ultimately have 2: "Fprintf_stderr
        ''ERROR: Provide three lines for each task in the schedule (.rtps) file'' []
        \<notin> set (fst (launch_tasks env (t + 1) num_tasks ifs'))"
      using less.prems tn by (intro less.hyps) simp_all
    from launch_tasks_step [OF le Some [unfolded q], of env] lt 1 2
    show ?thesis
      by (cases out1; cases "launch_tasks env (t + 1) num_tasks ifs'") auto
  qed
qed

section \<open>The stages of \<^verbatim>\<open>main\<close>\<close>

lemma wait_for_children_Wait: "e \<in> set (fst (wait_for_children ws)) \<Longrightarrow> e = Wait"
  by (induction ws) (auto split: prod.splits if_splits)

lemma wait_for_children_Wait':
  "wait_for_children ws = (calls, finished) \<Longrightarrow> e \<in> set calls \<Longrightarrow> e = Wait"
  using wait_for_children_Wait [of e ws] by simp

lemma wait_for_children_blocked:
  "Wait_failed ECHILD \<notin> set ws \<Longrightarrow>
     wait_for_children ws = (replicate (Suc (length ws)) Wait, False)"
  by (induction ws) auto

lemma wait_for_children_finished:
  "Wait_failed ECHILD \<notin> set ws \<Longrightarrow>
     wait_for_children (ws @ Wait_failed ECHILD # rest) = (replicate (Suc (length ws)) Wait, True)"
  by (induction ws) auto

lemma main_after_check:
  "length (argv env) = 2 \<Longrightarrow> check_schedule env = (calls0, None) \<Longrightarrow>
     main env =
       preceded_by (calls0 @ [Ifstream_open (argv env ! 1 @ ''.rtps'')])
         (case schedule_file env of
            None \<Rightarrow>
              ([Fprintf_stderr ''ERROR: Cannot open schedule file'' []],
               Returned RT_GOMP_CLUSTERING_LAUNCHER_FILE_OPEN_ERROR)
          | Some content \<Rightarrow> read_schedule env content)"
  by (simp add: main_def)

lemma main_read_schedule:
  "length (argv env) = 2 \<Longrightarrow> check_schedule env = (calls0, None) \<Longrightarrow>
   schedule_file env = Some content \<Longrightarrow>
     main env =
       preceded_by (calls0 @ [Ifstream_open (argv env ! 1 @ ''.rtps'')])
         (read_schedule env content)"
  by (simp add: main_def)

lemma check_schedule_calls: "e \<in> set (fst (check_schedule env)) \<Longrightarrow> check_call e"
  unfolding check_schedule_def run_scheduler_script_def preceded_by_def
  by (auto split: if_splits fork_result.splits exec_result.splits prod.splits
        dest: wait_for_children_Wait')

section \<open>The line count and the launch loop\<close>

lemma start_tasks_no_missing_line:
  assumes "unat num_tasks < 4294967295"
    and "Suc (3 * unat num_tasks) \<le> length (lines_of ifs)"
  shows "Fprintf_stderr
      ''ERROR: Provide three lines for each task in the schedule (.rtps) file'' []
      \<notin> set (fst (start_tasks env num_tasks ifs))"
proof (cases "getline ifs")
  case None
  then show ?thesis
    by (simp add: start_tasks_def)
next
  case (Some q)
  obtain core_range_line ifs' where q: "q = (core_range_line, ifs')"
    by (cases q)
  have "lines_of ifs = core_range_line # lines_of ifs'"
    using Some q by (simp add: lines_of_getline)
  with assms(2) have "3 * (Suc (unat num_tasks) - unat (1 :: 32 word)) \<le> length (lines_of ifs')"
    by simp
  from launch_tasks_enough_lines [OF assms(1) this, of env]
  have loop: "Fprintf_stderr
      ''ERROR: Provide three lines for each task in the schedule (.rtps) file'' []
      \<notin> set (fst (launch_tasks env 1 num_tasks ifs'))" .
  obtain calls out where l: "launch_tasks env 1 num_tasks ifs' = (calls, out)"
    by (cases "launch_tasks env 1 num_tasks ifs'")
  obtain calls' finished where w: "wait_for_children (wait_tasks env) = (calls', finished)"
    by (cases "wait_for_children (wait_tasks env)")
  have "Fprintf_stderr
      ''ERROR: Provide three lines for each task in the schedule (.rtps) file'' []
      \<notin> set calls'"
    using wait_for_children_Wait' [OF w] by blast
  with Some q l w loop show ?thesis
    by (cases out; cases finished) (simp_all add: start_tasks_def preceded_by_def)
qed

lemma read_schedule_no_missing_line:
  "Fprintf_stderr ''ERROR: Provide three lines for each task in the schedule (.rtps) file'' []
     \<notin> set (fst (read_schedule env content))"
proof (cases "2 \<le> count_lines content 0 \<and> (count_lines content 0 - 2) mod 3 = 0")
  case False
  then show ?thesis
    by (auto simp: read_schedule_def Let_def)
next
  case True
  define num_lines where "num_lines = count_lines content 0"
  define num_tasks where "num_tasks = (num_lines - 2) div 3"
  from True have ok: "2 \<le> num_lines" "(num_lines - 2) mod 3 = 0"
    by (simp_all add: num_lines_def)
  have small: "unat num_tasks < 4294967295"
    unfolding num_tasks_def by (rule num_tasks_small)
  have "unat num_lines \<le> length (lines_of content)"
    unfolding num_lines_def by (simp add: count_lines_eq unat_word_of_nat_le)
  with unat_num_lines [OF ok] have enough: "3 * unat num_tasks + 2 \<le> length (lines_of content)"
    by (simp add: num_tasks_def)
  have rs: "read_schedule env content = check_schedulability env num_tasks content"
    using True by (simp add: read_schedule_def Let_def num_tasks_def num_lines_def)
  show ?thesis
  proof (cases "getline content")
    case None
    then show ?thesis
      by (simp add: rs check_schedulability_def)
  next
    case (Some q)
    obtain schedulability_line ifs' where q: "q = (schedulability_line, ifs')"
      by (cases q)
    have "lines_of content = schedulability_line # lines_of ifs'"
      using Some q by (simp add: lines_of_getline)
    with enough have "Suc (3 * unat num_tasks) \<le> length (lines_of ifs')"
      by simp
    from start_tasks_no_missing_line [OF small this, of env] Some q show ?thesis
      by (auto simp: rs check_schedulability_def preceded_by_def split: option.splits)
  qed
qed

lemma main_no_missing_line:
  "Fprintf_stderr ''ERROR: Provide three lines for each task in the schedule (.rtps) file'' []
     \<notin> set (fst (main env))"
proof (cases "length (argv env) = 2")
  case False
  then show ?thesis
    by (simp add: main_def)
next
  case True
  obtain calls0 out0 where c: "check_schedule env = (calls0, out0)"
    by (cases "check_schedule env")
  have 0: "Fprintf_stderr
      ''ERROR: Provide three lines for each task in the schedule (.rtps) file'' []
      \<notin> set calls0"
    using check_schedule_calls [of _ env] c by fastforce
  show ?thesis
  proof (cases out0)
    case (Some out)
    with True c 0 show ?thesis
      by (simp add: main_def)
  next
    case None
    from main_after_check [OF True c [unfolded None]] 0
      read_schedule_no_missing_line [of env]
    show ?thesis
      by (auto simp: preceded_by_def split: option.splits)
  qed
qed

text \<open>
  Claim C9. The branch of the launch loop that reports a missing line of a task (line 315)
  is never taken: a file that fails the line count never reaches the loop, and a file that
  passes it has three lines for every iteration after the two header lines, so each
  iteration's three \<^verbatim>\<open>getline\<close> calls succeed.
\<close>

theorem C9_missing_line_unreachable:
  "Fprintf_stderr ''ERROR: Provide three lines for each task in the schedule (.rtps) file'' []
     \<notin> set (fst (main env))
   \<and> (schedule_file env = Some content
        \<and> 2 \<le> count_lines content 0 \<and> (count_lines content 0 - 2) mod 3 = 0
      \<longrightarrow> 3 * unat ((count_lines content 0 - 2) div 3) + 2 \<le> length (lines_of content))"
proof
  show "Fprintf_stderr
      ''ERROR: Provide three lines for each task in the schedule (.rtps) file'' []
      \<notin> set (fst (main env))"
    by (rule main_no_missing_line)
next
  show "schedule_file env = Some content
        \<and> 2 \<le> count_lines content 0 \<and> (count_lines content 0 - 2) mod 3 = 0
      \<longrightarrow> 3 * unat ((count_lines content 0 - 2) div 3) + 2 \<le> length (lines_of content)"
  proof
    assume a: "schedule_file env = Some content
        \<and> 2 \<le> count_lines content 0 \<and> (count_lines content 0 - 2) mod 3 = 0"
    have "unat (count_lines content 0) \<le> length (lines_of content)"
      by (simp add: count_lines_eq unat_word_of_nat_le)
    with a unat_num_lines [of "count_lines content 0"] show
      "3 * unat ((count_lines content 0 - 2) div 3) + 2 \<le> length (lines_of content)"
      by simp
  qed
qed

theorem C9_missing_line_unreachable_witness:
  "schedule_file (run_on scenario_schedule (Fork_parent 100) Exec_replaced) = Some scenario_schedule
   \<and> 2 \<le> count_lines scenario_schedule 0 \<and> (count_lines scenario_schedule 0 - 2) mod 3 = 0
   \<and> 3 * unat ((count_lines scenario_schedule 0 - 2) div 3) + 2
       \<le> length (lines_of scenario_schedule)
   \<and> Fprintf_stderr ''ERROR: Provide three lines for each task in the schedule (.rtps) file'' []
       \<notin> set (fst (main (run_on scenario_schedule (Fork_parent 100) Exec_replaced)))
   \<and> snd (main (run_on scenario_schedule (Fork_parent 100) Exec_replaced)) =
       Returned RT_GOMP_CLUSTERING_LAUNCHER_SUCCESS"
proof -
  have s: "schedule_file (run_on scenario_schedule (Fork_parent 100) Exec_replaced) =
      Some scenario_schedule"
    by (simp add: run_on_def)
  have c: "2 \<le> count_lines scenario_schedule 0"
    "(count_lines scenario_schedule 0 - 2) mod 3 = 0"
    by code_simp+
  have r: "snd (main (run_on scenario_schedule (Fork_parent 100) Exec_replaced)) =
       Returned RT_GOMP_CLUSTERING_LAUNCHER_SUCCESS"
    by code_simp
  from s c r C9_missing_line_unreachable
    [of "run_on scenario_schedule (Fork_parent 100) Exec_replaced" scenario_schedule]
  show ?thesis by simp
qed

section \<open>The core range line\<close>

text \<open>
  The loop depends on the environment through the answers of \<^verbatim>\<open>fork\<close> and
  \<^verbatim>\<open>execv\<close> only, and on the stream through its lines.
\<close>

lemma launch_tasks_cong:
  "fork_task env = fork_task env2 \<Longrightarrow> execv_task env = execv_task env2 \<Longrightarrow>
   sigterm env = sigterm env2 \<Longrightarrow> lines_of ifs = lines_of ifs2 \<Longrightarrow>
     launch_tasks env t num_tasks ifs = launch_tasks env2 t num_tasks ifs2"
proof (induction "length ifs" arbitrary: ifs ifs2 t rule: less_induct)
  case less
  show ?case
  proof (cases "t \<le> num_tasks")
    case False
    then show ?thesis
      by (simp add: launch_tasks_stop)
  next
    case True
    show ?thesis
    proof (cases "getline3 ifs")
      case None
      then have "getline3 ifs2 = None"
        using less.prems by (simp add: getline3_None_iff)
      with None True show ?thesis
        by (simp add: launch_tasks_missing kill_then_return_def less.prems(3))
    next
      case (Some q)
      obtain c tm p ifs' where q: "q = (c, tm, p, ifs')"
        by (cases q)
      from Some q have l: "lines_of ifs = c # tm # p # lines_of ifs'"
        by (simp add: getline3_lines)
      with less.prems obtain ifs2' where g2: "getline3 ifs2 = Some (c, tm, p, ifs2')"
        and l2: "lines_of ifs2' = lines_of ifs'"
        using getline3_of_lines [of ifs2 c tm p "lines_of ifs'"] by auto
      have "length ifs' < length ifs"
        using Some q by (auto dest: getline3_shorter)
      then have ih: "launch_tasks env (t + 1) num_tasks ifs' =
          launch_tasks env2 (t + 1) num_tasks ifs2'"
        using l2 less.prems by (intro less.hyps) simp_all
      have lt: "launch_task env t c tm p = launch_task env2 t c tm p"
        unfolding launch_task_def kill_then_return_def
          less.prems(1) less.prems(2) less.prems(3) ..
      show ?thesis
        unfolding launch_tasks_step [OF True Some [unfolded q]] launch_tasks_step [OF True g2]
          ih lt ..
    qed
  qed
qed

lemma start_tasks_cong:
  assumes "fork_task env = fork_task env2" and "execv_task env = execv_task env2"
    and "barrier_ret_val env = barrier_ret_val env2" and "wait_tasks env = wait_tasks env2"
    and "lines_of ifs = core_range1 # tasks" and "lines_of ifs2 = core_range2 # tasks"
    and "sigterm env = sigterm env2"
  shows "start_tasks env num_tasks ifs = start_tasks env2 num_tasks ifs2"
proof -
  from assms(5) obtain ifs' where g: "getline ifs = Some (core_range1, ifs')"
    and l: "lines_of ifs' = tasks"
    by (auto dest: lines_of_Cons)
  from assms(6) obtain ifs2' where g2: "getline ifs2 = Some (core_range2, ifs2')"
    and l2: "lines_of ifs2' = tasks"
    by (auto dest: lines_of_Cons)
  have "launch_tasks env 1 num_tasks ifs' = launch_tasks env2 1 num_tasks ifs2'"
    using assms(1,2,7) l l2 by (intro launch_tasks_cong) simp_all
  with g g2 assms(3,4) show ?thesis
    by (simp add: start_tasks_def)
qed

lemma read_schedule_cong:
  assumes "argv env = argv env2"
    and "fork_task env = fork_task env2" and "execv_task env = execv_task env2"
    and "barrier_ret_val env = barrier_ret_val env2" and "wait_tasks env = wait_tasks env2"
    and "lines_of content1 = line1 # core_range1 # tasks"
    and "lines_of content2 = line1 # core_range2 # tasks"
    and "sigterm env = sigterm env2"
  shows "read_schedule env content1 = read_schedule env2 content2"
proof -
  have n: "count_lines content1 0 = count_lines content2 0"
    using assms(6,7) by (simp add: count_lines_eq)
  from assms(6) obtain ifs where g: "getline content1 = Some (line1, ifs)"
    and l: "lines_of ifs = core_range1 # tasks"
    by (auto dest: lines_of_Cons)
  from assms(7) obtain ifs2 where g2: "getline content2 = Some (line1, ifs2)"
    and l2: "lines_of ifs2 = core_range2 # tasks"
    by (auto dest: lines_of_Cons)
  have "start_tasks env num_tasks ifs = start_tasks env2 num_tasks ifs2" for num_tasks
    using assms(2-5) l l2 assms(8) by (rule start_tasks_cong)
  with g g2 assms(1) have "check_schedulability env num_tasks content1 =
      check_schedulability env2 num_tasks content2" for num_tasks
    by (simp add: check_schedulability_def split: option.splits)
  with n show ?thesis
    by (simp add: read_schedule_def Let_def)
qed

lemma check_schedule_schedule_file:
  "check_schedule (env\<lparr>schedule_file := x\<rparr>) = check_schedule env"
proof -
  have "schedule_out_of_date (env\<lparr>schedule_file := x\<rparr>) = schedule_out_of_date env"
    by (simp add: schedule_out_of_date_def split: option.splits)
  moreover have "run_scheduler_script (env\<lparr>schedule_file := x\<rparr>) = run_scheduler_script env"
    by (simp add: run_scheduler_script_def split: fork_result.splits exec_result.splits)
  ultimately show ?thesis
    by (simp add: check_schedule_def)
qed

lemma count_lines_short:
  assumes "length (lines_of content) < 2"
  shows "\<not> 2 \<le> count_lines content 0"
proof -
  from assms have "length (lines_of content) = 0 \<or> length (lines_of content) = 1"
    by linarith
  then show ?thesis
    by (auto simp: count_lines_eq word_le_nat_alt simp del: length_0_conv)
qed

text \<open>
  Claim C8. What the second line of the schedule file says has no influence on the run:
  two files whose lines are the same except for the second give the same calls, with the
  same arguments, and the same end of the process, whatever the environment answers (so the
  same exit code, the same barrier size and, in the child of every task, the same
  \<^verbatim>\<open>execv\<close> vector). A file that has no second line ends the run with the parse
  error code.
\<close>

theorem C8_core_range_unused:
  "(lines_of content1 = line1 # core_range1 # tasks
      \<and> lines_of content2 = line1 # core_range2 # tasks
    \<longrightarrow> main (env\<lparr>schedule_file := Some content1\<rparr>)
          = main (env\<lparr>schedule_file := Some content2\<rparr>))
   \<and> (length (lines_of content) < 2
      \<and> length (argv env) = 2 \<and> check_schedule env = (calls0, None)
    \<longrightarrow> main (env\<lparr>schedule_file := Some content\<rparr>) =
          (calls0 @ [Ifstream_open (argv env ! 1 @ ''.rtps''),
                     Fprintf_stderr ''ERROR: Invalid number of lines in schedule file'' []],
           Returned RT_GOMP_CLUSTERING_LAUNCHER_FILE_PARSE_ERROR))"
proof (intro conjI impI)
  assume a: "lines_of content1 = line1 # core_range1 # tasks
      \<and> lines_of content2 = line1 # core_range2 # tasks"
  have "read_schedule (env\<lparr>schedule_file := Some content1\<rparr>) content1 =
      read_schedule (env\<lparr>schedule_file := Some content2\<rparr>) content2"
    using a by (intro read_schedule_cong [of _ _ _ line1 core_range1 tasks _ core_range2]) simp_all
  then show "main (env\<lparr>schedule_file := Some content1\<rparr>)
          = main (env\<lparr>schedule_file := Some content2\<rparr>)"
    by (simp add: main_def check_schedule_schedule_file split: prod.splits option.splits)
next
  assume a: "length (lines_of content) < 2
      \<and> length (argv env) = 2 \<and> check_schedule env = (calls0, None)"
  then have "\<not> 2 \<le> count_lines content 0"
    by (simp add: count_lines_short)
  with a show "main (env\<lparr>schedule_file := Some content\<rparr>) =
          (calls0 @ [Ifstream_open (argv env ! 1 @ ''.rtps''),
                     Fprintf_stderr ''ERROR: Invalid number of lines in schedule file'' []],
           Returned RT_GOMP_CLUSTERING_LAUNCHER_FILE_PARSE_ERROR)"
    by (simp add: main_def check_schedule_schedule_file preceded_by_def read_schedule_def Let_def)
qed

theorem C8_core_range_unused_witness:
  "lines_of scenario_schedule =
     ''0'' # ''0-3'' # [''workerA -x'', ''0 0 0 0 1 2 3 4 5 6 7'', ''part1 part2 part3'']
   \<and> lines_of scenario_other_core_range =
     ''0'' # ''no cores at all'' #
       [''workerA -x'', ''0 0 0 0 1 2 3 4 5 6 7'', ''part1 part2 part3'']
   \<and> main ((run_on [] Fork_child Exec_replaced)\<lparr>schedule_file := Some scenario_schedule\<rparr>)
       = main ((run_on [] Fork_child Exec_replaced)
                 \<lparr>schedule_file := Some scenario_other_core_range\<rparr>)
   \<and> length (lines_of ''0\<newline>'') < 2
   \<and> main ((run_on [] Fork_child Exec_replaced)\<lparr>schedule_file := Some ''0\<newline>''\<rparr>) =
       ([Stat ''base.rtpt'', Stat ''base.rtps'', Ifstream_open ''base.rtps'',
         Fprintf_stderr ''ERROR: Invalid number of lines in schedule file'' []],
        Returned RT_GOMP_CLUSTERING_LAUNCHER_FILE_PARSE_ERROR)"
proof -
  have l1: "lines_of scenario_schedule =
     ''0'' # ''0-3'' # [''workerA -x'', ''0 0 0 0 1 2 3 4 5 6 7'', ''part1 part2 part3'']"
    by code_simp
  have l2: "lines_of scenario_other_core_range =
     ''0'' # ''no cores at all'' #
       [''workerA -x'', ''0 0 0 0 1 2 3 4 5 6 7'', ''part1 part2 part3'']"
    by code_simp
  have s: "length (lines_of ''0\<newline>'') < 2"
    by code_simp
  have a: "length (argv (run_on [] Fork_child Exec_replaced)) = 2"
    by (simp add: run_on_def)
  have c: "check_schedule (run_on [] Fork_child Exec_replaced) =
      ([Stat ''base.rtpt'', Stat ''base.rtps''], None)"
    by code_simp
  have n: "argv (run_on [] Fork_child Exec_replaced) ! 1 = ''base''"
    by (simp add: run_on_def)
  from l1 l2 s a c n
    C8_core_range_unused [where ?content1.0 = scenario_schedule and ?line1.0 = "''0''"
      and ?core_range1.0 = "''0-3''"
      and tasks = "[''workerA -x'', ''0 0 0 0 1 2 3 4 5 6 7'', ''part1 part2 part3'']"
      and ?content2.0 = scenario_other_core_range and ?core_range2.0 = "''no cores at all''"
      and env = "run_on [] Fork_child Exec_replaced" and content = "''0\<newline>''"
      and ?calls0.0 = "[Stat ''base.rtpt'', Stat ''base.rtps'']"]
  show ?thesis by simp
qed

section \<open>The line count and the size of the barrier\<close>

lemma unat_count_lines:
  "length (lines_of content) < 2 ^ 32 \<Longrightarrow>
     unat (count_lines content 0) = length (lines_of content)"
  by (simp add: count_lines_eq unat_of_nat)

lemma line_count_test:
  assumes "length (lines_of content) < 2 ^ 32"
  shows "2 \<le> count_lines content 0 \<and> (count_lines content 0 - 2) mod 3 = 0
     \<longleftrightarrow> 2 \<le> length (lines_of content) \<and> 3 dvd (length (lines_of content) - 2)"
proof -
  define w where "w = count_lines content 0"
  have u: "unat w = length (lines_of content)"
    unfolding w_def using assms by (rule unat_count_lines)
  have two: "2 \<le> w \<longleftrightarrow> 2 \<le> unat w"
    by (simp add: word_le_nat_alt)
  have m: "(w - 2) mod 3 = 0 \<longleftrightarrow> 3 dvd (unat w - 2)" if "2 \<le> w"
  proof -
    have "unat (w - 2) = unat w - 2"
      using that by (simp add: unat_sub)
    moreover have "(w - 2) mod 3 = 0 \<longleftrightarrow> unat ((w - 2) mod 3) = 0"
      by (simp add: unat_eq_0)
    ultimately show ?thesis
      by (simp add: unat_mod dvd_eq_mod_eq_0)
  qed
  show ?thesis
    unfolding w_def [symmetric] u [symmetric] using two m by metis
qed

lemma unat_num_tasks:
  assumes "length (lines_of content) < 2 ^ 32" and "2 \<le> length (lines_of content)"
  shows "unat ((count_lines content 0 - 2) div 3) = (length (lines_of content) - 2) div 3"
proof -
  define w where "w = count_lines content 0"
  have u: "unat w = length (lines_of content)"
    unfolding w_def using assms(1) by (rule unat_count_lines)
  with assms(2) have "2 \<le> w"
    by (simp add: word_le_nat_alt)
  then have "unat (w - 2) = unat w - 2"
    by (simp add: unat_sub)
  with u show ?thesis
    unfolding w_def [symmetric] by (simp add: unat_div)
qed

lemma start_tasks_barrier:
  "Init_single_use_barrier name n \<in> set (fst (start_tasks env num_tasks ifs)) \<Longrightarrow>
     name = barrier_name \<and> n = num_tasks"
proof -
  assume a: "Init_single_use_barrier name n \<in> set (fst (start_tasks env num_tasks ifs))"
  have loop: "Init_single_use_barrier name n \<notin> set calls"
    if "launch_tasks env 1 num_tasks ifs' = (calls, out)" for ifs' calls out
    using launch_tasks_loop_calls [OF that] by (auto simp: list_all_iff)
  have wait: "Init_single_use_barrier name n \<notin> set calls"
    if "wait_for_children (wait_tasks env) = (calls, finished)" for calls finished
    using wait_for_children_Wait' [OF that] by blast
  from a loop wait show ?thesis
    by (auto simp: start_tasks_def preceded_by_def
          split: option.splits prod.splits if_splits bool.splits)
qed

lemma start_tasks_initializes:
  "getline ifs = Some (core_range_line, ifs') \<Longrightarrow>
     Init_single_use_barrier barrier_name num_tasks \<in> set (fst (start_tasks env num_tasks ifs))"
  by (simp add: start_tasks_def preceded_by_def)

lemma read_schedule_barrier:
  assumes "Init_single_use_barrier name n \<in> set (fst (read_schedule env content))"
  shows "name = barrier_name \<and> n = (count_lines content 0 - 2) div 3
     \<and> 2 \<le> count_lines content 0 \<and> (count_lines content 0 - 2) mod 3 = 0"
proof -
  define num_tasks where "num_tasks = (count_lines content 0 - 2) div 3"
  from assms have ok: "2 \<le> count_lines content 0 \<and> (count_lines content 0 - 2) mod 3 = 0"
    by (auto simp: read_schedule_def Let_def split: if_splits)
  with assms have "Init_single_use_barrier name n
      \<in> set (fst (check_schedulability env num_tasks content))"
    by (simp add: read_schedule_def Let_def num_tasks_def)
  then obtain ifs where "Init_single_use_barrier name n \<in> set (fst (start_tasks env num_tasks ifs))"
    by (auto simp: check_schedulability_def preceded_by_def split: option.splits if_splits)
  from start_tasks_barrier [OF this] ok show ?thesis
    by (simp add: num_tasks_def)
qed

lemma main_barrier:
  assumes "schedule_file env = Some content"
    and "Init_single_use_barrier name n \<in> set (fst (main env))"
  shows "name = barrier_name \<and> n = (count_lines content 0 - 2) div 3
     \<and> 2 \<le> count_lines content 0 \<and> (count_lines content 0 - 2) mod 3 = 0"
proof -
  from assms(2) have len: "length (argv env) = 2"
    by (auto simp: main_def split: if_splits)
  obtain calls0 out0 where c: "check_schedule env = (calls0, out0)"
    by (cases "check_schedule env")
  have 0: "Init_single_use_barrier name n \<notin> set calls0"
    using check_schedule_calls [of "Init_single_use_barrier name n" env] c by auto
  from assms(2) len c 0 have none: "out0 = None"
    by (cases out0) (auto simp: main_def)
  from main_read_schedule [OF len c [unfolded none] assms(1)] assms(2) 0
  have "Init_single_use_barrier name n \<in> set (fst (read_schedule env content))"
    by (auto simp: preceded_by_def)
  then show ?thesis
    by (rule read_schedule_barrier)
qed

lemma read_schedule_initializes:
  assumes "2 \<le> count_lines content 0 \<and> (count_lines content 0 - 2) mod 3 = 0"
    and "2 \<le> length (lines_of content)"
    and "extract_unsigned (hd (lines_of content)) = Some 0
         \<or> extract_unsigned (hd (lines_of content)) = Some 1"
  shows "Init_single_use_barrier barrier_name ((count_lines content 0 - 2) div 3)
     \<in> set (fst (read_schedule env content))"
proof -
  define num_tasks where "num_tasks = (count_lines content 0 - 2) div 3"
  from assms(2) obtain line1 line2 rest where l: "lines_of content = line1 # line2 # rest"
    by (cases "lines_of content"; cases "tl (lines_of content)") auto
  then obtain ifs where g: "getline content = Some (line1, ifs)"
    and l': "lines_of ifs = line2 # rest"
    by (auto dest: lines_of_Cons)
  then obtain ifs' where g': "getline ifs = Some (line2, ifs')"
    by (auto dest: lines_of_Cons)
  have i: "Init_single_use_barrier barrier_name num_tasks
      \<in> set (fst (start_tasks env num_tasks ifs))"
    using g' by (rule start_tasks_initializes)
  from assms(3) l have "extract_unsigned line1 = Some 0 \<or> extract_unsigned line1 = Some 1"
    by simp
  with g i have "Init_single_use_barrier barrier_name num_tasks
      \<in> set (fst (check_schedulability env num_tasks content))"
    by (auto simp: check_schedulability_def preceded_by_def)
  with assms(1) show ?thesis
    by (simp add: read_schedule_def Let_def num_tasks_def)
qed

text \<open>
  Claim C4, as amended. For a schedule file of fewer than \<open>2 ^ 32\<close> lines: unless the
  file has at least two lines and the number of its lines less two is divisible by three,
  the launcher reports an invalid number of lines and returns the parse error code; the
  barrier is initialized only for a file that passes this test, under its fixed name and
  with exactly (number of lines - 2) / 3 participants; and it is initialized whenever the
  file passes the test and its first line reads as 0 or 1.
\<close>

theorem C4_line_count:
  "length (lines_of content) < 2 ^ 32 \<and> schedule_file env = Some content \<longrightarrow>
     (length (argv env) = 2 \<and> check_schedule env = (calls0, None)
        \<and> \<not> (2 \<le> length (lines_of content) \<and> 3 dvd (length (lines_of content) - 2))
      \<longrightarrow> main env =
            (calls0 @ [Ifstream_open (argv env ! 1 @ ''.rtps''),
                       Fprintf_stderr ''ERROR: Invalid number of lines in schedule file'' []],
             Returned RT_GOMP_CLUSTERING_LAUNCHER_FILE_PARSE_ERROR))
     \<and> (Init_single_use_barrier name n \<in> set (fst (main env))
      \<longrightarrow> 2 \<le> length (lines_of content) \<and> 3 dvd (length (lines_of content) - 2)
          \<and> name = barrier_name \<and> unat n = (length (lines_of content) - 2) div 3)
     \<and> (length (argv env) = 2 \<and> check_schedule env = (calls0, None)
        \<and> 2 \<le> length (lines_of content) \<and> 3 dvd (length (lines_of content) - 2)
        \<and> (extract_unsigned (hd (lines_of content)) = Some 0
             \<or> extract_unsigned (hd (lines_of content)) = Some 1)
      \<longrightarrow> Init_single_use_barrier barrier_name
            (word_of_nat ((length (lines_of content) - 2) div 3))
          \<in> set (fst (main env)))"
proof (intro impI conjI; (elim conjE)?)
  assume small: "length (lines_of content) < 2 ^ 32" and sf: "schedule_file env = Some content"
    and len: "length (argv env) = 2" and c: "check_schedule env = (calls0, None)"
    and bad: "\<not> (2 \<le> length (lines_of content) \<and> 3 dvd (length (lines_of content) - 2))"
  from bad line_count_test [OF small]
  have "\<not> (2 \<le> count_lines content 0 \<and> (count_lines content 0 - 2) mod 3 = 0)"
    by metis
  then have "read_schedule env content =
      ([Fprintf_stderr ''ERROR: Invalid number of lines in schedule file'' []],
       Returned RT_GOMP_CLUSTERING_LAUNCHER_FILE_PARSE_ERROR)"
    by (simp add: read_schedule_def Let_def)
  with main_read_schedule [OF len c sf] show "main env =
      (calls0 @ [Ifstream_open (argv env ! 1 @ ''.rtps''),
                 Fprintf_stderr ''ERROR: Invalid number of lines in schedule file'' []],
       Returned RT_GOMP_CLUSTERING_LAUNCHER_FILE_PARSE_ERROR)"
    by (simp add: preceded_by_def)
next
  assume small: "length (lines_of content) < 2 ^ 32" and sf: "schedule_file env = Some content"
    and i: "Init_single_use_barrier name n \<in> set (fst (main env))"
  from main_barrier [OF sf i] have nm: "name = barrier_name"
    and n: "n = (count_lines content 0 - 2) div 3"
    and ok: "2 \<le> count_lines content 0 \<and> (count_lines content 0 - 2) mod 3 = 0"
    by simp_all
  from ok line_count_test [OF small]
  have ok': "2 \<le> length (lines_of content) \<and> 3 dvd (length (lines_of content) - 2)"
    by metis
  with unat_num_tasks [OF small] n nm
  show "2 \<le> length (lines_of content)" "3 dvd (length (lines_of content) - 2)"
    "name = barrier_name" "unat n = (length (lines_of content) - 2) div 3"
    by simp_all
next
  assume small: "length (lines_of content) < 2 ^ 32" and sf: "schedule_file env = Some content"
    and len: "length (argv env) = 2" and c: "check_schedule env = (calls0, None)"
    and two: "2 \<le> length (lines_of content)" and dvd: "3 dvd (length (lines_of content) - 2)"
    and v: "extract_unsigned (hd (lines_of content)) = Some 0
             \<or> extract_unsigned (hd (lines_of content)) = Some 1"
  from two dvd line_count_test [OF small]
  have ok: "2 \<le> count_lines content 0 \<and> (count_lines content 0 - 2) mod 3 = 0"
    by metis
  have "(count_lines content 0 - 2) div 3 =
      word_of_nat (unat ((count_lines content 0 - 2) div 3))"
    by simp
  then have "(count_lines content 0 - 2) div 3 =
      word_of_nat ((length (lines_of content) - 2) div 3)"
    by (simp only: unat_num_tasks [OF small two])
  with read_schedule_initializes [OF ok two v, of env]
  have "Init_single_use_barrier barrier_name
      (word_of_nat ((length (lines_of content) - 2) div 3))
      \<in> set (fst (read_schedule env content))"
    by simp
  with main_read_schedule [OF len c sf] show "Init_single_use_barrier barrier_name
      (word_of_nat ((length (lines_of content) - 2) div 3)) \<in> set (fst (main env))"
    by (simp add: preceded_by_def)
qed

theorem C4_line_count_witness:
  "length (lines_of scenario_schedule) = 5
   \<and> Init_single_use_barrier barrier_name 1
       \<in> set (fst (main (run_on scenario_schedule (Fork_parent 100) Exec_replaced)))
   \<and> unat (1 :: 32 word) = (length (lines_of scenario_schedule) - 2) div 3
   \<and> length (lines_of three_line_schedule) = 3
   \<and> main (run_on three_line_schedule (Fork_parent 100) Exec_replaced) =
       ([Stat ''base.rtpt'', Stat ''base.rtps'', Ifstream_open ''base.rtps'',
         Fprintf_stderr ''ERROR: Invalid number of lines in schedule file'' []],
        Returned RT_GOMP_CLUSTERING_LAUNCHER_FILE_PARSE_ERROR)"
proof -
  have l5: "length (lines_of scenario_schedule) = 5"
    by code_simp
  have l3: "length (lines_of three_line_schedule) = 3"
    by code_simp
  have h: "extract_unsigned (hd (lines_of scenario_schedule)) = Some 0"
    by code_simp
  have a: "length (argv (run_on content (Fork_parent 100) Exec_replaced)) = 2"
    and s: "schedule_file (run_on content (Fork_parent 100) Exec_replaced) = Some content"
    and n: "argv (run_on content (Fork_parent 100) Exec_replaced) ! 1 = ''base''"
    for content
    by (simp_all add: run_on_def)
  have c: "check_schedule (run_on content (Fork_parent 100) Exec_replaced) =
      ([Stat ''base.rtpt'', Stat ''base.rtps''], None)" for content
    by (simp add: check_schedule_def schedule_out_of_date_def preceded_by_def run_on_def)
  note good = C4_line_count [where content = scenario_schedule
      and env = "run_on scenario_schedule (Fork_parent 100) Exec_replaced"
      and ?calls0.0 = "[Stat ''base.rtpt'', Stat ''base.rtps'']"
      and name = barrier_name and n = 1]
  note bad = C4_line_count [where content = three_line_schedule
      and env = "run_on three_line_schedule (Fork_parent 100) Exec_replaced"
      and ?calls0.0 = "[Stat ''base.rtpt'', Stat ''base.rtps'']"]
  from good l5 h a s c have i: "Init_single_use_barrier barrier_name 1
      \<in> set (fst (main (run_on scenario_schedule (Fork_parent 100) Exec_replaced)))"
    by simp
  from good l5 a s c i have u: "unat (1 :: 32 word) = (length (lines_of scenario_schedule) - 2) div 3"
    by simp
  from bad l3 a s c n have b: "main (run_on three_line_schedule (Fork_parent 100) Exec_replaced) =
       ([Stat ''base.rtpt'', Stat ''base.rtps'', Ifstream_open ''base.rtps'',
         Fprintf_stderr ''ERROR: Invalid number of lines in schedule file'' []],
        Returned RT_GOMP_CLUSTERING_LAUNCHER_FILE_PARSE_ERROR)"
    by simp
  from l5 l3 i u b show ?thesis by simp
qed

lemma lines_of_newlines: "lines_of (replicate n (CHR 0x0A)) = replicate n []"
proof (induction n)
  case 0
  show ?case
    by (simp add: lines_of_empty_iff getline_def)
next
  case (Suc n)
  have "getline (replicate (Suc n) (CHR 0x0A)) = Some ([], replicate n (CHR 0x0A))"
    by (simp add: getline_def)
  from lines_of_getline [OF this] Suc show ?case
    by simp
qed

lemma getline_wrapping_schedule:
  "getline wrapping_schedule = Some (''0'', replicate 4294967297 (CHR 0x0A))"
  by (simp add: getline_def wrapping_schedule_def)

lemma lines_of_wrapping_schedule:
  "lines_of wrapping_schedule = ''0'' # replicate 4294967297 []"
  using lines_of_getline [OF getline_wrapping_schedule]
  by (simp only: lines_of_newlines)

lemma count_lines_wrapping_schedule: "count_lines wrapping_schedule 0 = 2"
  by (simp add: count_lines_eq lines_of_wrapping_schedule)

lemma start_tasks_wrapping_schedule:
  "start_tasks (run_on wrapping_schedule (Fork_parent 100) Exec_replaced) 0
     (replicate 4294967297 (CHR 0x0A)) =
     ([Init_single_use_barrier barrier_name 0,
       Fprintf_stderr ''All tasks started\<newline>'' [], Wait, Wait,
       Fprintf_stderr ''All tasks finished\<newline>'' []],
      Returned RT_GOMP_CLUSTERING_LAUNCHER_SUCCESS)"
proof -
  have "replicate 4294967297 (CHR 0x0A) = CHR 0x0A # replicate 4294967296 (CHR 0x0A)"
    using replicate_Suc [of 4294967296 "CHR 0x0A"] by simp
  then have g: "getline (replicate 4294967297 (CHR 0x0A)) =
      Some ([], replicate 4294967296 (CHR 0x0A))"
    by (simp add: getline_def)
  have l: "launch_tasks env 1 0 ifs = ([], None)" for env ifs
    by (rule launch_tasks_stop) simp
  show ?thesis
    by (simp add: start_tasks_def g l preceded_by_def run_on_def)
qed

theorem C4_line_count_counterexample:
  "length (lines_of wrapping_schedule) = 4294967298
   \<and> \<not> 3 dvd (4294967298 - 2 :: nat)
   \<and> main (run_on wrapping_schedule (Fork_parent 100) Exec_replaced) =
       ([Stat ''base.rtpt'', Stat ''base.rtps'', Ifstream_open ''base.rtps'',
         Fprintf_stderr ''Taskset is schedulable: %s\<newline>'' [''base''],
         Init_single_use_barrier barrier_name 0,
         Fprintf_stderr ''All tasks started\<newline>'' [], Wait, Wait,
         Fprintf_stderr ''All tasks finished\<newline>'' []],
        Returned RT_GOMP_CLUSTERING_LAUNCHER_SUCCESS)
   \<and> (0 :: nat) \<noteq> (4294967298 - 2) div 3"
proof -
  have a: "length (argv (run_on wrapping_schedule (Fork_parent 100) Exec_replaced)) = 2"
    and s: "schedule_file (run_on wrapping_schedule (Fork_parent 100) Exec_replaced) =
      Some wrapping_schedule"
    and n: "argv (run_on wrapping_schedule (Fork_parent 100) Exec_replaced) ! Suc 0 = ''base''"
    by (simp_all add: run_on_def)
  have c: "check_schedule (run_on wrapping_schedule (Fork_parent 100) Exec_replaced) =
      ([Stat ''base.rtpt'', Stat ''base.rtps''], None)"
    by (simp add: check_schedule_def schedule_out_of_date_def preceded_by_def run_on_def)
  have e: "extract_unsigned ''0'' = Some 0"
    by code_simp
  have r: "read_schedule (run_on wrapping_schedule (Fork_parent 100) Exec_replaced)
      wrapping_schedule =
      ([Fprintf_stderr ''Taskset is schedulable: %s\<newline>'' [''base''],
        Init_single_use_barrier barrier_name 0,
        Fprintf_stderr ''All tasks started\<newline>'' [], Wait, Wait,
        Fprintf_stderr ''All tasks finished\<newline>'' []],
       Returned RT_GOMP_CLUSTERING_LAUNCHER_SUCCESS)"
    by (simp add: read_schedule_def Let_def count_lines_wrapping_schedule
          check_schedulability_def getline_wrapping_schedule e
          start_tasks_wrapping_schedule preceded_by_def n)
  have m: "main (run_on wrapping_schedule (Fork_parent 100) Exec_replaced) =
       ([Stat ''base.rtpt'', Stat ''base.rtps'', Ifstream_open ''base.rtps'',
         Fprintf_stderr ''Taskset is schedulable: %s\<newline>'' [''base''],
         Init_single_use_barrier barrier_name 0,
         Fprintf_stderr ''All tasks started\<newline>'' [], Wait, Wait,
         Fprintf_stderr ''All tasks finished\<newline>'' []],
        Returned RT_GOMP_CLUSTERING_LAUNCHER_SUCCESS)"
    using main_read_schedule [OF a c s] by (simp add: r n preceded_by_def)
  have l: "length (lines_of wrapping_schedule) = 4294967298"
    by (simp add: lines_of_wrapping_schedule)
  from l m show ?thesis by simp
qed

theorem C7_nonempty_lines_counterexample:
  "main (run_on empty_core_range_schedule (Fork_parent 100) Exec_replaced) =
     ([Stat ''base.rtpt'', Stat ''base.rtps'', Ifstream_open ''base.rtps'',
       Fprintf_stderr ''Taskset is schedulable: %s\<newline>'' [''base''],
       Init_single_use_barrier ''RT_GOMP_CLUSTERING_BARRIER'' 1,
       Fprintf_stderr ''Forking and execv-ing task %s\<newline>'' [''workerA''],
       Fork (Fork_parent 100),
       Fprintf_stderr ''All tasks started\<newline>'' [], Wait, Wait,
       Fprintf_stderr ''All tasks finished\<newline>'' []],
      Returned RT_GOMP_CLUSTERING_LAUNCHER_SUCCESS)
   \<and> (count_lines empty_core_range_schedule 0 - 2) div 3 = 1
   \<and> length (filter (\<lambda>line. line \<noteq> []) (lines_of empty_core_range_schedule)) = 4
   \<and> (1 :: nat) * 3 + 2 \<noteq> 4"
  by code_simp

text \<open>
  Claim C7, as amended. For every schedule file that passes the line count, the number of
  tasks times three plus two is the number of lines \<^verbatim>\<open>getline\<close> delivers, the empty
  ones included, modulo \<open>2 ^ 32\<close>: the number of lines itself for a file of fewer than
  \<open>2 ^ 32\<close> lines. The number of tasks is the number the barrier is initialized with.
\<close>

theorem C7_line_count_invariant:
  "(2 \<le> count_lines content 0 \<and> (count_lines content 0 - 2) mod 3 = 0
    \<longrightarrow> unat ((count_lines content 0 - 2) div 3) * 3 + 2
          = length (lines_of content) mod 2 ^ 32)
   \<and> (schedule_file env = Some content
       \<and> Init_single_use_barrier name num_tasks \<in> set (fst (main env))
    \<longrightarrow> unat num_tasks * 3 + 2 = length (lines_of content) mod 2 ^ 32)
   \<and> (schedule_file env = Some content
       \<and> Init_single_use_barrier name num_tasks \<in> set (fst (main env))
       \<and> length (lines_of content) < 2 ^ 32
    \<longrightarrow> unat num_tasks * 3 + 2 = length (lines_of content))"
proof -
  have u: "unat (count_lines content 0) = length (lines_of content) mod 2 ^ 32"
    by (simp add: count_lines_eq unat_of_nat)
  have 1: "unat ((count_lines content 0 - 2) div 3) * 3 + 2
      = length (lines_of content) mod 2 ^ 32"
    if "2 \<le> count_lines content 0 \<and> (count_lines content 0 - 2) mod 3 = 0"
    using unat_num_lines [of "count_lines content 0"] that u by simp
  have 2: "unat num_tasks * 3 + 2 = length (lines_of content) mod 2 ^ 32"
    if "schedule_file env = Some content
       \<and> Init_single_use_barrier name num_tasks \<in> set (fst (main env))"
    using main_barrier [of env content name num_tasks] that 1 by simp
  from 1 2 show ?thesis
    by simp
qed

theorem C7_line_count_invariant_witness:
  "2 \<le> count_lines empty_core_range_schedule 0
   \<and> (count_lines empty_core_range_schedule 0 - 2) mod 3 = 0
   \<and> Init_single_use_barrier barrier_name 1
       \<in> set (fst (main (run_on empty_core_range_schedule (Fork_parent 100) Exec_replaced)))
   \<and> length (lines_of empty_core_range_schedule) = 5
   \<and> unat (1 :: 32 word) * 3 + 2 = length (lines_of empty_core_range_schedule)
   \<and> unat ((count_lines empty_core_range_schedule 0 - 2) div 3) * 3 + 2 = 5"
proof -
  have c: "2 \<le> count_lines empty_core_range_schedule 0"
    "(count_lines empty_core_range_schedule 0 - 2) mod 3 = 0"
    by code_simp+
  have i: "Init_single_use_barrier barrier_name 1
       \<in> set (fst (main (run_on empty_core_range_schedule (Fork_parent 100) Exec_replaced)))"
    by code_simp
  have l: "length (lines_of empty_core_range_schedule) = 5"
    by code_simp
  have s: "schedule_file (run_on empty_core_range_schedule (Fork_parent 100) Exec_replaced) =
      Some empty_core_range_schedule"
    by (simp add: run_on_def)
  from c i l s C7_line_count_invariant [of empty_core_range_schedule
      "run_on empty_core_range_schedule (Fork_parent 100) Exec_replaced" barrier_name 1]
  show ?thesis by simp
qed

section \<open>The schedulability line\<close>

theorem C2_schedulability_gate_counterexample:
  "getline ''2\<newline>'' = Some (''2'', [])
   \<and> extract_unsigned ''2'' = Some 2
   \<and> main (run_on ''2\<newline>'' (Fork_parent 100) Exec_replaced) =
       ([Stat ''base.rtpt'', Stat ''base.rtps'', Ifstream_open ''base.rtps'',
         Fprintf_stderr ''ERROR: Invalid number of lines in schedule file'' []],
        Returned RT_GOMP_CLUSTERING_LAUNCHER_FILE_PARSE_ERROR)
   \<and> RT_GOMP_CLUSTERING_LAUNCHER_FILE_PARSE_ERROR
       \<noteq> RT_GOMP_CLUSTERING_LAUNCHER_UNSCHEDULABLE_ERROR"
  by code_simp

text \<open>
  Claim C2, as amended. For every schedule file that passes the line count: when its first
  line reads as the unsigned integer 0 or 1 the launcher reports so and goes on with the
  core range line, the barrier and the launch loop; when it reads as any other unsigned
  integer the launcher returns the unschedulable error code, having made no call after
  opening the file but the report (no \<^verbatim>\<open>fork\<close>); when it does not read as an
  unsigned integer the launcher returns the parse error code. A file with no first line
  fails the line count and also ends with the parse error code.
\<close>

theorem C2_schedulability_gate:
  "length (argv env) = 2 \<and> check_schedule env = (calls0, None)
     \<and> schedule_file env = Some content \<longrightarrow>
     (2 \<le> count_lines content 0 \<and> (count_lines content 0 - 2) mod 3 = 0
        \<and> getline content = Some (schedulability_line, ifs)
      \<longrightarrow> (extract_unsigned schedulability_line = Some 0
            \<longrightarrow> main env =
                  preceded_by
                    (calls0 @ [Ifstream_open (argv env ! 1 @ ''.rtps''),
                       Fprintf_stderr ''Taskset is schedulable: %s\<newline>'' [argv env ! 1]])
                    (start_tasks env ((count_lines content 0 - 2) div 3) ifs))
          \<and> (extract_unsigned schedulability_line = Some 1
            \<longrightarrow> main env =
                  preceded_by
                    (calls0 @ [Ifstream_open (argv env ! 1 @ ''.rtps''),
                       Fprintf_stderr ''WARNING: Taskset may not be schedulable: %s\<newline>''
                         [argv env ! 1]])
                    (start_tasks env ((count_lines content 0 - 2) div 3) ifs))
          \<and> (extract_unsigned schedulability_line = Some schedulability
               \<and> schedulability \<noteq> 0 \<and> schedulability \<noteq> 1
            \<longrightarrow> main env =
                  (calls0 @ [Ifstream_open (argv env ! 1 @ ''.rtps''),
                     Fprintf_stderr ''ERROR: Taskset NOT schedulable: %s'' [argv env ! 1]],
                   Returned RT_GOMP_CLUSTERING_LAUNCHER_UNSCHEDULABLE_ERROR))
          \<and> (extract_unsigned schedulability_line = None
            \<longrightarrow> main env =
                  (calls0 @ [Ifstream_open (argv env ! 1 @ ''.rtps''),
                     Fprintf_stderr ''ERROR: Schedulability improperly specified'' []],
                   Returned RT_GOMP_CLUSTERING_LAUNCHER_FILE_PARSE_ERROR)))
     \<and> (getline content = None
      \<longrightarrow> main env =
            (calls0 @ [Ifstream_open (argv env ! 1 @ ''.rtps''),
               Fprintf_stderr ''ERROR: Invalid number of lines in schedule file'' []],
             Returned RT_GOMP_CLUSTERING_LAUNCHER_FILE_PARSE_ERROR))"
proof (intro impI, elim conjE)
  assume len: "length (argv env) = 2" and c: "check_schedule env = (calls0, None)"
    and sf: "schedule_file env = Some content"
  note m = main_read_schedule [OF len c sf]
  have absent: "main env =
      (calls0 @ [Ifstream_open (argv env ! 1 @ ''.rtps''),
         Fprintf_stderr ''ERROR: Invalid number of lines in schedule file'' []],
       Returned RT_GOMP_CLUSTERING_LAUNCHER_FILE_PARSE_ERROR)"
    if "getline content = None"
  proof -
    from that have "lines_of content = []"
      by (simp add: lines_of_empty_iff)
    then have "\<not> 2 \<le> count_lines content 0"
      by (simp add: count_lines_short)
    then show ?thesis
      by (simp add: m read_schedule_def Let_def preceded_by_def)
  qed
  have present: "main env =
      preceded_by (calls0 @ [Ifstream_open (argv env ! 1 @ ''.rtps'')])
        (check_schedulability env ((count_lines content 0 - 2) div 3) content)"
    if "2 \<le> count_lines content 0 \<and> (count_lines content 0 - 2) mod 3 = 0"
    using that by (simp add: m read_schedule_def Let_def preceded_by_def)
  show "(2 \<le> count_lines content 0 \<and> (count_lines content 0 - 2) mod 3 = 0
        \<and> getline content = Some (schedulability_line, ifs)
      \<longrightarrow> (extract_unsigned schedulability_line = Some 0
            \<longrightarrow> main env =
                  preceded_by
                    (calls0 @ [Ifstream_open (argv env ! 1 @ ''.rtps''),
                       Fprintf_stderr ''Taskset is schedulable: %s\<newline>'' [argv env ! 1]])
                    (start_tasks env ((count_lines content 0 - 2) div 3) ifs))
          \<and> (extract_unsigned schedulability_line = Some 1
            \<longrightarrow> main env =
                  preceded_by
                    (calls0 @ [Ifstream_open (argv env ! 1 @ ''.rtps''),
                       Fprintf_stderr ''WARNING: Taskset may not be schedulable: %s\<newline>''
                         [argv env ! 1]])
                    (start_tasks env ((count_lines content 0 - 2) div 3) ifs))
          \<and> (extract_unsigned schedulability_line = Some schedulability
               \<and> schedulability \<noteq> 0 \<and> schedulability \<noteq> 1
            \<longrightarrow> main env =
                  (calls0 @ [Ifstream_open (argv env ! 1 @ ''.rtps''),
                     Fprintf_stderr ''ERROR: Taskset NOT schedulable: %s'' [argv env ! 1]],
                   Returned RT_GOMP_CLUSTERING_LAUNCHER_UNSCHEDULABLE_ERROR))
          \<and> (extract_unsigned schedulability_line = None
            \<longrightarrow> main env =
                  (calls0 @ [Ifstream_open (argv env ! 1 @ ''.rtps''),
                     Fprintf_stderr ''ERROR: Schedulability improperly specified'' []],
                   Returned RT_GOMP_CLUSTERING_LAUNCHER_FILE_PARSE_ERROR)))
     \<and> (getline content = None
      \<longrightarrow> main env =
            (calls0 @ [Ifstream_open (argv env ! 1 @ ''.rtps''),
               Fprintf_stderr ''ERROR: Invalid number of lines in schedule file'' []],
             Returned RT_GOMP_CLUSTERING_LAUNCHER_FILE_PARSE_ERROR))"
    using absent present
    by (auto simp: check_schedulability_def preceded_by_def)
qed

theorem C2_schedulability_gate_witness:
  "main (run_on infeasible_schedule (Fork_parent 100) Exec_replaced) =
     ([Stat ''base.rtpt'', Stat ''base.rtps'', Ifstream_open ''base.rtps'',
       Fprintf_stderr ''ERROR: Taskset NOT schedulable: %s'' [''base'']],
      Returned RT_GOMP_CLUSTERING_LAUNCHER_UNSCHEDULABLE_ERROR)
   \<and> main (run_on marginal_schedule (Fork_parent 100) Exec_replaced) =
       preceded_by
         [Stat ''base.rtpt'', Stat ''base.rtps'', Ifstream_open ''base.rtps'',
          Fprintf_stderr ''WARNING: Taskset may not be schedulable: %s\<newline>'' [''base'']]
         (start_tasks (run_on marginal_schedule (Fork_parent 100) Exec_replaced) 1
            ''0-3\<newline>workerA -x\<newline>0 0 0 0 1 2 3 4 5 6 7\<newline>part1 part2 part3\<newline>'')
   \<and> main (run_on scenario_schedule (Fork_parent 100) Exec_replaced) =
       preceded_by
         [Stat ''base.rtpt'', Stat ''base.rtps'', Ifstream_open ''base.rtps'',
          Fprintf_stderr ''Taskset is schedulable: %s\<newline>'' [''base'']]
         (start_tasks (run_on scenario_schedule (Fork_parent 100) Exec_replaced) 1
            ''0-3\<newline>workerA -x\<newline>0 0 0 0 1 2 3 4 5 6 7\<newline>part1 part2 part3\<newline>'')"
proof -
  have a: "length (argv (run_on content (Fork_parent 100) Exec_replaced)) = 2"
    and s: "schedule_file (run_on content (Fork_parent 100) Exec_replaced) = Some content"
    and n: "argv (run_on content (Fork_parent 100) Exec_replaced) ! 1 = ''base''"
    for content
    by (simp_all add: run_on_def)
  have c: "check_schedule (run_on content (Fork_parent 100) Exec_replaced) =
      ([Stat ''base.rtpt'', Stat ''base.rtps''], None)" for content
    by (simp add: check_schedule_def schedule_out_of_date_def preceded_by_def run_on_def)
  have k2: "2 \<le> count_lines infeasible_schedule 0"
    "(count_lines infeasible_schedule 0 - 2) mod 3 = 0"
    and k1: "2 \<le> count_lines marginal_schedule 0"
    "(count_lines marginal_schedule 0 - 2) mod 3 = 0"
    "(count_lines marginal_schedule 0 - 2) div 3 = 1"
    and k0: "2 \<le> count_lines scenario_schedule 0"
    "(count_lines scenario_schedule 0 - 2) mod 3 = 0"
    "(count_lines scenario_schedule 0 - 2) div 3 = 1"
    by code_simp+
  have g2: "getline infeasible_schedule = Some (''2'',
      ''0-3\<newline>workerA -x\<newline>0 0 0 0 1 2 3 4 5 6 7\<newline>part1 part2 part3\<newline>'')"
    and g1: "getline marginal_schedule = Some (''1'',
      ''0-3\<newline>workerA -x\<newline>0 0 0 0 1 2 3 4 5 6 7\<newline>part1 part2 part3\<newline>'')"
    and g0: "getline scenario_schedule = Some (''0'',
      ''0-3\<newline>workerA -x\<newline>0 0 0 0 1 2 3 4 5 6 7\<newline>part1 part2 part3\<newline>'')"
    by code_simp+
  have e2: "extract_unsigned ''2'' = Some 2" and e1: "extract_unsigned ''1'' = Some 1"
    and e0: "extract_unsigned ''0'' = Some 0"
    by code_simp+
  have two: "(2 :: 32 word) \<noteq> 0" "(2 :: 32 word) \<noteq> 1"
    by simp_all
  from C2_schedulability_gate [where env = "run_on infeasible_schedule (Fork_parent 100) Exec_replaced"
      and content = infeasible_schedule and ?calls0.0 = "[Stat ''base.rtpt'', Stat ''base.rtps'']"
      and schedulability_line = "''2''" and schedulability = 2
      and ifs = "''0-3\<newline>workerA -x\<newline>0 0 0 0 1 2 3 4 5 6 7\<newline>part1 part2 part3\<newline>''"]
    a s n c k2 g2 e2 two
  have r2: "main (run_on infeasible_schedule (Fork_parent 100) Exec_replaced) =
     ([Stat ''base.rtpt'', Stat ''base.rtps'', Ifstream_open ''base.rtps'',
       Fprintf_stderr ''ERROR: Taskset NOT schedulable: %s'' [''base'']],
      Returned RT_GOMP_CLUSTERING_LAUNCHER_UNSCHEDULABLE_ERROR)"
    by simp
  from C2_schedulability_gate [where env = "run_on marginal_schedule (Fork_parent 100) Exec_replaced"
      and content = marginal_schedule and ?calls0.0 = "[Stat ''base.rtpt'', Stat ''base.rtps'']"
      and schedulability_line = "''1''"
      and ifs = "''0-3\<newline>workerA -x\<newline>0 0 0 0 1 2 3 4 5 6 7\<newline>part1 part2 part3\<newline>''"]
    a s n c k1 g1 e1
  have r1: "main (run_on marginal_schedule (Fork_parent 100) Exec_replaced) =
       preceded_by
         [Stat ''base.rtpt'', Stat ''base.rtps'', Ifstream_open ''base.rtps'',
          Fprintf_stderr ''WARNING: Taskset may not be schedulable: %s\<newline>'' [''base'']]
         (start_tasks (run_on marginal_schedule (Fork_parent 100) Exec_replaced) 1
            ''0-3\<newline>workerA -x\<newline>0 0 0 0 1 2 3 4 5 6 7\<newline>part1 part2 part3\<newline>'')"
    by simp
  from C2_schedulability_gate [where env = "run_on scenario_schedule (Fork_parent 100) Exec_replaced"
      and content = scenario_schedule and ?calls0.0 = "[Stat ''base.rtpt'', Stat ''base.rtps'']"
      and schedulability_line = "''0''"
      and ifs = "''0-3\<newline>workerA -x\<newline>0 0 0 0 1 2 3 4 5 6 7\<newline>part1 part2 part3\<newline>''"]
    a s n c k0 g0 e0
  have r0: "main (run_on scenario_schedule (Fork_parent 100) Exec_replaced) =
       preceded_by
         [Stat ''base.rtpt'', Stat ''base.rtps'', Ifstream_open ''base.rtps'',
          Fprintf_stderr ''Taskset is schedulable: %s\<newline>'' [''base'']]
         (start_tasks (run_on scenario_schedule (Fork_parent 100) Exec_replaced) 1
            ''0-3\<newline>workerA -x\<newline>0 0 0 0 1 2 3 4 5 6 7\<newline>part1 part2 part3\<newline>'')"
    by simp
  from r2 r1 r0 show ?thesis by simp
qed

section \<open>Failures inside the launch loop\<close>








lemma kill_then_return_cases:
  "(sigterm env = Sigterm_terminates \<longrightarrow> kill_then_return env code = Terminated_by SIGTERM)
   \<and> (sigterm env = Sigterm_no_effect \<longrightarrow> kill_then_return env code = Returned code)"
  by (simp add: kill_then_return_def)


section \<open>The signal before the return\<close>




section \<open>The number of tokens on the lines of a task\<close>




section \<open>What the tokens may be\<close>

lemma c_str_no_NUL:
  "CHR 0x00 \<notin> set s \<Longrightarrow> c_str s = s"
  by (auto simp: c_str_def takeWhile_eq_all_conv)

lemma map_c_str_no_NUL:
  "\<forall>s \<in> set v. CHR 0x00 \<notin> set s \<Longrightarrow> map c_str v = v"
  by (induction v) (simp_all add: c_str_no_NUL)

lemma c_str_barrier_name:
  "c_str barrier_name = barrier_name"
  by (simp add: c_str_def barrier_name_def)

theorem C10_no_numeric_validation_counterexample:
  "tokens (''pa'' @ [CHR 0x00] @ ''rt1 part2 part3'') =
     [''pa'' @ [CHR 0x00] @ ''rt1'', ''part2'', ''part3'']
   \<and> main (run_on nul_schedule Fork_child Exec_replaced) =
       ([Stat ''base.rtpt'', Stat ''base.rtps'', Ifstream_open ''base.rtps'',
         Fprintf_stderr ''Taskset is schedulable: %s\<newline>'' [''base''],
         Init_single_use_barrier barrier_name 1,
         Fprintf_stderr ''Forking and execv-ing task %s\<newline>'' [''workerA''],
         Fork Fork_child,
         Execv ''workerA''
           [''workerA'', ''pa'', ''part2'', ''part3'', ''1'', ''2'', ''3'', ''4'', ''5'', ''6'',
            ''7'', ''RT_GOMP_CLUSTERING_BARRIER'', ''workerA'', ''-x'']],
        Image_replaced)
   \<and> ''pa'' \<noteq> ''pa'' @ [CHR 0x00] @ ''rt1''"
  by code_simp

text \<open>
  Claim C10, as amended. The launcher never looks inside a partition or timing token:
  whatever the tokens are, numeric or not, three partition tokens and eleven timing tokens
  are accepted, and the three and the last seven are copied into the vector the child
  passes to \<^verbatim>\<open>execv\<close> as C strings: unchanged when they hold no NUL character, and
  cut before its first NUL character otherwise.
\<close>

theorem C10_no_numeric_validation:
  assumes "tokens task_command_line = program_name # args"
    and "length (tokens task_partition_line) = 3"
    and "length (tokens task_timing_line) = 11"
  shows
    "task_argvector task_command_line task_timing_line task_partition_line =
       Inr (program_name,
            program_name # tokens task_partition_line @ drop 4 (tokens task_timing_line)
              @ barrier_name # program_name # args)
     \<and> Fork (fork_task env t)
         \<in> set (fst (launch_task env t task_command_line task_timing_line task_partition_line))
     \<and> (fork_task env t = Fork_child \<longrightarrow>
          Execv (c_str program_name)
            (c_str program_name # map c_str (tokens task_partition_line)
               @ map c_str (drop 4 (tokens task_timing_line))
               @ barrier_name # c_str program_name # map c_str args)
          \<in> set (fst (launch_task env t task_command_line task_timing_line task_partition_line)))
     \<and> (fork_task env t = Fork_child
          \<and> (\<forall>s \<in> set (program_name # args @ tokens task_partition_line
                          @ tokens task_timing_line). CHR 0x00 \<notin> set s) \<longrightarrow>
          Execv program_name
            (program_name # tokens task_partition_line @ drop 4 (tokens task_timing_line)
               @ barrier_name # program_name # args)
          \<in> set (fst (launch_task env t task_command_line task_timing_line task_partition_line)))
     \<and> (\<forall>s. c_str s = takeWhile (\<lambda>c. c \<noteq> CHR 0x00) s)
     \<and> (\<forall>s. CHR 0x00 \<notin> set s \<longrightarrow> c_str s = s)"
proof -
  have v: "task_argvector task_command_line task_timing_line task_partition_line =
       Inr (program_name,
            program_name # tokens task_partition_line @ drop 4 (tokens task_timing_line)
              @ barrier_name # program_name # args)"
    using assms by (simp add: task_argvector_by_counts)
  have f: "Fork (fork_task env t)
      \<in> set (fst (launch_task env t task_command_line task_timing_line task_partition_line))"
    using v by (simp add: launch_task_def split: fork_result.splits exec_result.splits)
  have e: "Execv (c_str program_name)
            (c_str program_name # map c_str (tokens task_partition_line)
               @ map c_str (drop 4 (tokens task_timing_line))
               @ barrier_name # c_str program_name # map c_str args)
      \<in> set (fst (launch_task env t task_command_line task_timing_line task_partition_line))"
    if "fork_task env t = Fork_child"
    using v that by (simp add: launch_task_def c_str_barrier_name split: exec_result.splits)
  have e': "Execv program_name
            (program_name # tokens task_partition_line @ drop 4 (tokens task_timing_line)
               @ barrier_name # program_name # args)
      \<in> set (fst (launch_task env t task_command_line task_timing_line task_partition_line))"
    if c: "fork_task env t = Fork_child"
      and n: "\<forall>s \<in> set (program_name # args @ tokens task_partition_line
                          @ tokens task_timing_line). CHR 0x00 \<notin> set s"
  proof -
    from n have 1: "c_str program_name = program_name"
      by (simp add: c_str_no_NUL)
    from n have 2: "map c_str args = args"
      by (intro map_c_str_no_NUL) simp
    from n have 3: "map c_str (tokens task_partition_line) = tokens task_partition_line"
      by (intro map_c_str_no_NUL) simp
    from n have "\<forall>s \<in> set (drop 4 (tokens task_timing_line)). CHR 0x00 \<notin> set s"
      by (auto dest: in_set_dropD)
    then have 4: "map c_str (drop 4 (tokens task_timing_line)) = drop 4 (tokens task_timing_line)"
      by (rule map_c_str_no_NUL)
    from e [OF c] show ?thesis
      unfolding 1 2 3 4 .
  qed
  have d: "\<forall>s. c_str s = takeWhile (\<lambda>c. c \<noteq> CHR 0x00) s"
    by (simp add: c_str_def)
  have n: "\<forall>s. CHR 0x00 \<notin> set s \<longrightarrow> c_str s = s"
    by (simp add: c_str_no_NUL)
  from v f e e' d n show ?thesis
    by blast
qed

theorem C10_no_numeric_validation_witness:
  "task_argvector ''./task one'' ''a b c d fast 1e3 -7 0x10 n/a ten k'' ''left ? right'' =
     Inr (''./task'',
          [''./task'', ''left'', ''?'', ''right'', ''fast'', ''1e3'', ''-7'', ''0x10'', ''n/a'',
           ''ten'', ''k'', barrier_name, ''./task'', ''one''])
   \<and> Execv ''./task''
         [''./task'', ''left'', ''?'', ''right'', ''fast'', ''1e3'', ''-7'', ''0x10'', ''n/a'',
          ''ten'', ''k'', barrier_name, ''./task'', ''one'']
       \<in> set (fst (launch_task (run_on scenario_schedule Fork_child Exec_replaced) 1
             ''./task one'' ''a b c d fast 1e3 -7 0x10 n/a ten k'' ''left ? right''))"
proof -
  have c: "tokens ''./task one'' = ''./task'' # [''one'']"
    by code_simp
  have p: "tokens ''left ? right'' = [''left'', ''?'', ''right'']"
    by code_simp
  have t: "tokens ''a b c d fast 1e3 -7 0x10 n/a ten k'' =
      [''a'', ''b'', ''c'', ''d'', ''fast'', ''1e3'', ''-7'', ''0x10'', ''n/a'', ''ten'', ''k'']"
    by code_simp
  have f: "fork_task (run_on scenario_schedule Fork_child Exec_replaced) 1 = Fork_child"
    by (simp add: run_on_def)
  from C10_no_numeric_validation [of "''./task one''" "''./task''" "[''one'']"
      "''left ? right''" "''a b c d fast 1e3 -7 0x10 n/a ten k''"
      "run_on scenario_schedule Fork_child Exec_replaced" 1] c p t f
  show ?thesis by simp
qed

section \<open>The check for an up to date schedule\<close>

theorem C6_schedule_freshness_counterexample:
  "stat_schedule both_files_missing = None
   \<and> main both_files_missing =
       ([Stat ''base.rtpt'', Stat ''base.rtps'',
         Fprintf_stderr ''ERROR: Cannot open taskset file: %s'' [''base.rtpt'']],
        Returned RT_GOMP_CLUSTERING_LAUNCHER_FILE_OPEN_ERROR)
   \<and> \<not> scheduler_invoked both_files_missing
   \<and> stat_schedule scheduler_fork_fails = None
   \<and> main scheduler_fork_fails =
       ([Stat ''base.rtpt'', Stat ''base.rtps'',
         Fprintf_stderr ''Scheduling taskset %s ...\<newline>'' [''base''],
         Fork Fork_error,
         Perror ''Forking a new process for scheduler script failed''],
        Returned RT_GOMP_CLUSTERING_LAUNCHER_FORK_EXECV_ERROR)
   \<and> \<not> scheduler_invoked scheduler_fork_fails"
  by code_simp

lemma scheduler_forked_iff:
  "Fork (fork_scheduler env) \<in> set (fst (check_schedule env))
     \<longleftrightarrow> schedule_out_of_date env \<and> stat_taskset env \<noteq> None"
  unfolding check_schedule_def run_scheduler_script_def preceded_by_def
  by (auto split: fork_result.splits exec_result.splits prod.splits)

lemma child_execs_iff:
  "Execvp ''python'' [''python'', ''cluster.py'', argv env ! 1]
     \<in> set (fst (check_schedule (env\<lparr>fork_scheduler := Fork_child\<rparr>)))
     \<longleftrightarrow> schedule_out_of_date env \<and> stat_taskset env \<noteq> None"
  unfolding check_schedule_def run_scheduler_script_def preceded_by_def schedule_out_of_date_def
  by (auto split: exec_result.splits option.splits)

lemma schedule_out_of_date_iff:
  "schedule_out_of_date env \<and> stat_taskset env \<noteq> None
     \<longleftrightarrow> stat_taskset env \<noteq> None
         \<and> (stat_schedule env = None
            \<or> (\<exists>taskset_mtime schedule_mtime.
                 stat_taskset env = Some taskset_mtime
                 \<and> stat_schedule env = Some schedule_mtime
                 \<and> schedule_mtime < taskset_mtime))"
  by (auto simp: schedule_out_of_date_def split: option.splits)

lemma scheduler_invoked_iff:
  "scheduler_invoked env
     \<longleftrightarrow> (\<exists>pid. fork_scheduler env = Fork_parent pid)
         \<and> schedule_out_of_date env \<and> stat_taskset env \<noteq> None"
  unfolding scheduler_invoked_def scheduler_forked_iff child_execs_iff
  by (auto split: fork_result.splits)

lemma check_schedule_waits:
  assumes "schedule_out_of_date env" and "stat_taskset env \<noteq> None"
    and "fork_scheduler env = Fork_parent pid"
  shows "check_schedule env =
     preceded_by
       [Stat (argv env ! 1 @ ''.rtpt''), Stat (argv env ! 1 @ ''.rtps''),
        Fprintf_stderr ''Scheduling taskset %s ...\<newline>'' [argv env ! 1],
        Fork (Fork_parent pid)]
       (case wait_for_children (wait_scheduler env) of
          (calls, finished) \<Rightarrow> (calls, if finished then None else Some Blocked_in_wait))"
  using assms
  by (simp add: check_schedule_def run_scheduler_script_def preceded_by_def split: prod.splits)

text \<open>
  Claim C6, as amended. The external scheduling step is invoked (the launcher creates a
  child, and the child calls \<^verbatim>\<open>execvp\<close> on \<^verbatim>\<open>python\<close> with \<^verbatim>\<open>cluster.py\<close> and the
  name of the taskset) exactly when the taskset file exists, the schedule file is missing
  or strictly older than the taskset file, and the \<^verbatim>\<open>fork\<close> succeeds. When both files
  are missing the launcher reports that it cannot open the taskset file and returns the
  file-open error code, having made no call but the two \<^verbatim>\<open>stat\<close> and the report. When
  the taskset file exists and the schedule file is missing or older, a failing \<^verbatim>\<open>fork\<close>
  ends the launcher with the fork/exec error code; the child ends in the image of
  \<^verbatim>\<open>python\<close>, or with the fork/exec error code when \<^verbatim>\<open>execvp\<close> returns. When the
  step is invoked the launcher calls \<^verbatim>\<open>wait\<close> until it answers \<^verbatim>\<open>ECHILD\<close>: as long
  as it does not, the launcher does not go on, and when it does, the launcher opens the
  schedule file, whatever the earlier answers (the exit status of the child among them)
  were.
\<close>

theorem C6_schedule_freshness:
  "(scheduler_invoked env
      \<longleftrightarrow> (\<exists>pid. fork_scheduler env = Fork_parent pid)
          \<and> stat_taskset env \<noteq> None
          \<and> (stat_schedule env = None
             \<or> (\<exists>taskset_mtime schedule_mtime.
                  stat_taskset env = Some taskset_mtime
                  \<and> stat_schedule env = Some schedule_mtime
                  \<and> schedule_mtime < taskset_mtime)))
   \<and> (length (argv env) = 2 \<and> stat_schedule env = None \<and> stat_taskset env = None
    \<longrightarrow> main env =
          ([Stat (argv env ! 1 @ ''.rtpt''), Stat (argv env ! 1 @ ''.rtps''),
            Fprintf_stderr ''ERROR: Cannot open taskset file: %s'' [argv env ! 1 @ ''.rtpt'']],
           Returned RT_GOMP_CLUSTERING_LAUNCHER_FILE_OPEN_ERROR))
   \<and> (length (argv env) = 2 \<and> schedule_out_of_date env \<and> stat_taskset env \<noteq> None
       \<and> fork_scheduler env = Fork_error
    \<longrightarrow> main env =
          ([Stat (argv env ! 1 @ ''.rtpt''), Stat (argv env ! 1 @ ''.rtps''),
            Fprintf_stderr ''Scheduling taskset %s ...\<newline>'' [argv env ! 1],
            Fork Fork_error,
            Perror ''Forking a new process for scheduler script failed''],
           Returned RT_GOMP_CLUSTERING_LAUNCHER_FORK_EXECV_ERROR))
   \<and> (length (argv env) = 2 \<and> schedule_out_of_date env \<and> stat_taskset env \<noteq> None
       \<and> fork_scheduler env = Fork_child \<and> execvp_scheduler env = Exec_replaced
    \<longrightarrow> main env =
          ([Stat (argv env ! 1 @ ''.rtpt''), Stat (argv env ! 1 @ ''.rtps''),
            Fprintf_stderr ''Scheduling taskset %s ...\<newline>'' [argv env ! 1],
            Fork Fork_child,
            Execvp ''python'' [''python'', ''cluster.py'', argv env ! 1]],
           Image_replaced))
   \<and> (length (argv env) = 2 \<and> schedule_out_of_date env \<and> stat_taskset env \<noteq> None
       \<and> fork_scheduler env = Fork_child \<and> execvp_scheduler env = Exec_returned
    \<longrightarrow> main env =
          ([Stat (argv env ! 1 @ ''.rtpt''), Stat (argv env ! 1 @ ''.rtps''),
            Fprintf_stderr ''Scheduling taskset %s ...\<newline>'' [argv env ! 1],
            Fork Fork_child,
            Execvp ''python'' [''python'', ''cluster.py'', argv env ! 1],
            Perror ''Execv-ing scheduler script failed''],
           Returned RT_GOMP_CLUSTERING_LAUNCHER_FORK_EXECV_ERROR))
   \<and> (length (argv env) = 2
       \<and> scheduler_invoked env
       \<and> fork_scheduler env = Fork_parent pid
       \<and> Wait_failed ECHILD \<notin> set (wait_scheduler env)
    \<longrightarrow> main env =
          ([Stat (argv env ! 1 @ ''.rtpt''), Stat (argv env ! 1 @ ''.rtps''),
            Fprintf_stderr ''Scheduling taskset %s ...\<newline>'' [argv env ! 1],
            Fork (Fork_parent pid)]
             @ replicate (Suc (length (wait_scheduler env))) Wait,
           Blocked_in_wait))
   \<and> (length (argv env) = 2
       \<and> scheduler_invoked env
       \<and> fork_scheduler env = Fork_parent pid
       \<and> wait_scheduler env = answers @ Wait_failed ECHILD # later
       \<and> Wait_failed ECHILD \<notin> set answers
    \<longrightarrow> main env =
          preceded_by
            ([Stat (argv env ! 1 @ ''.rtpt''), Stat (argv env ! 1 @ ''.rtps''),
              Fprintf_stderr ''Scheduling taskset %s ...\<newline>'' [argv env ! 1],
              Fork (Fork_parent pid)]
               @ replicate (Suc (length answers)) Wait
               @ [Ifstream_open (argv env ! 1 @ ''.rtps'')])
            (case schedule_file env of
               None \<Rightarrow>
                 ([Fprintf_stderr ''ERROR: Cannot open schedule file'' []],
                  Returned RT_GOMP_CLUSTERING_LAUNCHER_FILE_OPEN_ERROR)
             | Some content \<Rightarrow> read_schedule env content))
   \<and> (schedule_out_of_date env
      \<longleftrightarrow> stat_schedule env = None
          \<or> (\<exists>taskset_mtime schedule_mtime.
                stat_taskset env = Some taskset_mtime
                \<and> stat_schedule env = Some schedule_mtime
                \<and> schedule_mtime < taskset_mtime))"
proof (intro conjI impI; (elim conjE)?)
  show "scheduler_invoked env
      \<longleftrightarrow> (\<exists>pid. fork_scheduler env = Fork_parent pid)
          \<and> stat_taskset env \<noteq> None
          \<and> (stat_schedule env = None
             \<or> (\<exists>taskset_mtime schedule_mtime.
                  stat_taskset env = Some taskset_mtime
                  \<and> stat_schedule env = Some schedule_mtime
                  \<and> schedule_mtime < taskset_mtime))"
    unfolding scheduler_invoked_iff using schedule_out_of_date_iff [of env] by blast
next
  assume "length (argv env) = 2" and "stat_schedule env = None" and "stat_taskset env = None"
  then show "main env =
          ([Stat (argv env ! 1 @ ''.rtpt''), Stat (argv env ! 1 @ ''.rtps''),
            Fprintf_stderr ''ERROR: Cannot open taskset file: %s'' [argv env ! 1 @ ''.rtpt'']],
           Returned RT_GOMP_CLUSTERING_LAUNCHER_FILE_OPEN_ERROR)"
    by (simp add: main_def check_schedule_def schedule_out_of_date_def preceded_by_def)
next
  assume "length (argv env) = 2" and "schedule_out_of_date env" and "stat_taskset env \<noteq> None"
    and "fork_scheduler env = Fork_error"
  then show "main env =
          ([Stat (argv env ! 1 @ ''.rtpt''), Stat (argv env ! 1 @ ''.rtps''),
            Fprintf_stderr ''Scheduling taskset %s ...\<newline>'' [argv env ! 1],
            Fork Fork_error,
            Perror ''Forking a new process for scheduler script failed''],
           Returned RT_GOMP_CLUSTERING_LAUNCHER_FORK_EXECV_ERROR)"
    by (simp add: main_def check_schedule_def run_scheduler_script_def preceded_by_def)
next
  assume "length (argv env) = 2" and "schedule_out_of_date env" and "stat_taskset env \<noteq> None"
    and "fork_scheduler env = Fork_child" and "execvp_scheduler env = Exec_replaced"
  then show "main env =
          ([Stat (argv env ! 1 @ ''.rtpt''), Stat (argv env ! 1 @ ''.rtps''),
            Fprintf_stderr ''Scheduling taskset %s ...\<newline>'' [argv env ! 1],
            Fork Fork_child,
            Execvp ''python'' [''python'', ''cluster.py'', argv env ! 1]],
           Image_replaced)"
    by (simp add: main_def check_schedule_def run_scheduler_script_def preceded_by_def)
next
  assume "length (argv env) = 2" and "schedule_out_of_date env" and "stat_taskset env \<noteq> None"
    and "fork_scheduler env = Fork_child" and "execvp_scheduler env = Exec_returned"
  then show "main env =
          ([Stat (argv env ! 1 @ ''.rtpt''), Stat (argv env ! 1 @ ''.rtps''),
            Fprintf_stderr ''Scheduling taskset %s ...\<newline>'' [argv env ! 1],
            Fork Fork_child,
            Execvp ''python'' [''python'', ''cluster.py'', argv env ! 1],
            Perror ''Execv-ing scheduler script failed''],
           Returned RT_GOMP_CLUSTERING_LAUNCHER_FORK_EXECV_ERROR)"
    by (simp add: main_def check_schedule_def run_scheduler_script_def preceded_by_def)
next
  assume len: "length (argv env) = 2"
    and f: "scheduler_invoked env"
    and p: "fork_scheduler env = Fork_parent pid"
    and w: "Wait_failed ECHILD \<notin> set (wait_scheduler env)"
  from f have "schedule_out_of_date env" and "stat_taskset env \<noteq> None"
    by (simp_all add: scheduler_invoked_iff)
  from check_schedule_waits [OF this p] wait_for_children_blocked [OF w] len
  show "main env =
          ([Stat (argv env ! 1 @ ''.rtpt''), Stat (argv env ! 1 @ ''.rtps''),
            Fprintf_stderr ''Scheduling taskset %s ...\<newline>'' [argv env ! 1],
            Fork (Fork_parent pid)]
             @ replicate (Suc (length (wait_scheduler env))) Wait,
           Blocked_in_wait)"
    by (simp add: main_def preceded_by_def)
next
  assume len: "length (argv env) = 2"
    and f: "scheduler_invoked env"
    and p: "fork_scheduler env = Fork_parent pid"
    and ws: "wait_scheduler env = answers @ Wait_failed ECHILD # later"
    and w: "Wait_failed ECHILD \<notin> set answers"
  from f have "schedule_out_of_date env" and "stat_taskset env \<noteq> None"
    by (simp_all add: scheduler_invoked_iff)
  from check_schedule_waits [OF this p] wait_for_children_finished [OF w, of later] ws
  have "check_schedule env =
      ([Stat (argv env ! 1 @ ''.rtpt''), Stat (argv env ! 1 @ ''.rtps''),
        Fprintf_stderr ''Scheduling taskset %s ...\<newline>'' [argv env ! 1],
        Fork (Fork_parent pid)] @ replicate (Suc (length answers)) Wait, None)"
    by (simp add: preceded_by_def)
  from main_after_check [OF len this]
  show "main env =
          preceded_by
            ([Stat (argv env ! 1 @ ''.rtpt''), Stat (argv env ! 1 @ ''.rtps''),
              Fprintf_stderr ''Scheduling taskset %s ...\<newline>'' [argv env ! 1],
              Fork (Fork_parent pid)]
               @ replicate (Suc (length answers)) Wait
               @ [Ifstream_open (argv env ! 1 @ ''.rtps'')])
            (case schedule_file env of
               None \<Rightarrow>
                 ([Fprintf_stderr ''ERROR: Cannot open schedule file'' []],
                  Returned RT_GOMP_CLUSTERING_LAUNCHER_FILE_OPEN_ERROR)
             | Some content \<Rightarrow> read_schedule env content)"
    by simp
next
  show "schedule_out_of_date env
      \<longleftrightarrow> stat_schedule env = None
          \<or> (\<exists>taskset_mtime schedule_mtime.
                stat_taskset env = Some taskset_mtime
                \<and> stat_schedule env = Some schedule_mtime
                \<and> schedule_mtime < taskset_mtime)"
    by (auto simp: schedule_out_of_date_def split: option.splits)
qed

theorem C6_schedule_freshness_witness:
  "scheduler_invoked (schedule_missing 1)
   \<and> main (schedule_missing 1) =
       preceded_by
         [Stat ''base.rtpt'', Stat ''base.rtps'',
          Fprintf_stderr ''Scheduling taskset %s ...\<newline>'' [''base''],
          Fork (Fork_parent 7), Wait, Wait, Ifstream_open ''base.rtps'']
         (read_schedule (schedule_missing 1) scenario_schedule)
   \<and> main ((schedule_missing 1)\<lparr>fork_scheduler := Fork_child, execvp_scheduler := Exec_replaced\<rparr>) =
       ([Stat ''base.rtpt'', Stat ''base.rtps'',
         Fprintf_stderr ''Scheduling taskset %s ...\<newline>'' [''base''],
         Fork Fork_child,
         Execvp ''python'' [''python'', ''cluster.py'', ''base'']],
        Image_replaced)
   \<and> main both_files_missing =
       ([Stat ''base.rtpt'', Stat ''base.rtps'',
         Fprintf_stderr ''ERROR: Cannot open taskset file: %s'' [''base.rtpt'']],
        Returned RT_GOMP_CLUSTERING_LAUNCHER_FILE_OPEN_ERROR)
   \<and> main scheduler_fork_fails =
       ([Stat ''base.rtpt'', Stat ''base.rtps'',
         Fprintf_stderr ''Scheduling taskset %s ...\<newline>'' [''base''],
         Fork Fork_error,
         Perror ''Forking a new process for scheduler script failed''],
        Returned RT_GOMP_CLUSTERING_LAUNCHER_FORK_EXECV_ERROR)"
proof -
  have a: "length (argv (schedule_missing 1)) = 2"
    and n: "argv (schedule_missing 1) ! 1 = ''base''"
    and t: "stat_taskset (schedule_missing 1) = Some 1"
    and d: "stat_schedule (schedule_missing 1) = None"
    and p: "fork_scheduler (schedule_missing 1) = Fork_parent 7"
    and w: "wait_scheduler (schedule_missing 1) = [Wait_reaped 7 1] @ Wait_failed ECHILD # []"
    and s: "schedule_file (schedule_missing 1) = Some scenario_schedule"
    by (simp_all add: schedule_missing_def run_on_def)
  have e: "Wait_failed ECHILD \<notin> set [Wait_reaped 7 1]"
    by simp
  have b: "length (argv both_files_missing) = 2"
    and bn: "argv both_files_missing ! 1 = ''base''"
    and bt: "stat_taskset both_files_missing = None"
    and bd: "stat_schedule both_files_missing = None"
    by (simp_all add: both_files_missing_def run_on_def)
  have fa: "length (argv scheduler_fork_fails) = 2"
    and fn: "argv scheduler_fork_fails ! 1 = ''base''"
    and ft: "stat_taskset scheduler_fork_fails = Some 1"
    and fd: "stat_schedule scheduler_fork_fails = None"
    and ff: "fork_scheduler scheduler_fork_fails = Fork_error"
    by (simp_all add: scheduler_fork_fails_def run_on_def)
  note inst = C6_schedule_freshness [where env = "schedule_missing 1" and pid = 7
      and answers = "[Wait_reaped 7 1]" and later = "[]"]
  from inst t d p have f: "scheduler_invoked (schedule_missing 1)"
    by simp
  from inst f a n p w e s have m: "main (schedule_missing 1) =
       preceded_by
         [Stat ''base.rtpt'', Stat ''base.rtps'',
          Fprintf_stderr ''Scheduling taskset %s ...\<newline>'' [''base''],
          Fork (Fork_parent 7), Wait, Wait, Ifstream_open ''base.rtps'']
         (read_schedule (schedule_missing 1) scenario_schedule)"
    by simp
  from C6_schedule_freshness [where env = "(schedule_missing 1)
        \<lparr>fork_scheduler := Fork_child, execvp_scheduler := Exec_replaced\<rparr>"] a n t d
  have c: "main ((schedule_missing 1)
        \<lparr>fork_scheduler := Fork_child, execvp_scheduler := Exec_replaced\<rparr>) =
       ([Stat ''base.rtpt'', Stat ''base.rtps'',
         Fprintf_stderr ''Scheduling taskset %s ...\<newline>'' [''base''],
         Fork Fork_child,
         Execvp ''python'' [''python'', ''cluster.py'', ''base'']],
        Image_replaced)"
    by simp
  from C6_schedule_freshness [where env = both_files_missing] b bn bt bd
  have o: "main both_files_missing =
       ([Stat ''base.rtpt'', Stat ''base.rtps'',
         Fprintf_stderr ''ERROR: Cannot open taskset file: %s'' [''base.rtpt'']],
        Returned RT_GOMP_CLUSTERING_LAUNCHER_FILE_OPEN_ERROR)"
    by simp
  from C6_schedule_freshness [where env = scheduler_fork_fails] fa fn ft fd ff
  have g: "main scheduler_fork_fails =
       ([Stat ''base.rtpt'', Stat ''base.rtps'',
         Fprintf_stderr ''Scheduling taskset %s ...\<newline>'' [''base''],
         Fork Fork_error,
         Perror ''Forking a new process for scheduler script failed''],
        Returned RT_GOMP_CLUSTERING_LAUNCHER_FORK_EXECV_ERROR)"
    by simp
  from f m c o g show ?thesis by simp
qed

end
